theory Spec2Isabelle
  imports Complex_Main
begin

section \<open>Seed script: SLA status of a generated complaint\<close>

text \<open>
  The seed script for Kochi city computes, for every generated complaint, a deadline
  from the submission time and the SLA hours of the complaint type, and derives the
  stored SLA status with \<open>calculateSLAStatus\<close>. A JavaScript \<open>Date\<close> is modelled by
  its \<open>getTime()\<close> value, an integer number of milliseconds. The function reads the
  clock (\<open>new Date()\<close>); the reading is the explicit last argument \<open>now\<close>.
  \<open>daysRemaining\<close> is a quotient of an integer by a positive constant; it is kept as
  a real number, and the two comparisons against 0 and 1 are the ones of the source.
\<close>

type_synonym date = int

datatype complaint_status = REGISTERED | ASSIGNED | IN_PROGRESS | RESOLVED | CLOSED | REOPENED

datatype sla_status = ON_TIME | WARNING | OVERDUE | COMPLETED

datatype priority = LOW | MEDIUM | HIGH | CRITICAL

record complaint_type_cfg =
  ct_name :: string
  ct_priority :: priority
  slaHours :: int

definition COMPLAINT_TYPES :: "complaint_type_cfg list" where
  "COMPLAINT_TYPES =
    [\<lparr>ct_name = ''Water Supply'', ct_priority = HIGH, slaHours = 24\<rparr>,
     \<lparr>ct_name = ''Electricity'', ct_priority = HIGH, slaHours = 12\<rparr>,
     \<lparr>ct_name = ''Road Repair'', ct_priority = MEDIUM, slaHours = 72\<rparr>,
     \<lparr>ct_name = ''Waste Management'', ct_priority = MEDIUM, slaHours = 48\<rparr>,
     \<lparr>ct_name = ''Street Lighting'', ct_priority = LOW, slaHours = 48\<rparr>,
     \<lparr>ct_name = ''Drainage'', ct_priority = HIGH, slaHours = 24\<rparr>,
     \<lparr>ct_name = ''Air Pollution'', ct_priority = MEDIUM, slaHours = 48\<rparr>,
     \<lparr>ct_name = ''Noise Pollution'', ct_priority = LOW, slaHours = 72\<rparr>]"

definition addHours :: "date \<Rightarrow> int \<Rightarrow> date" where
  "addHours d hours = d + hours * 60 * 60 * 1000"

definition addDays :: "date \<Rightarrow> int \<Rightarrow> date" where
  "addDays d days = d + days * 24 * 60 * 60 * 1000"

definition calculateSLAStatus ::
  "date \<Rightarrow> date \<Rightarrow> date option \<Rightarrow> complaint_status \<Rightarrow> date \<Rightarrow> sla_status" where
  "calculateSLAStatus submittedOn deadline resolvedOn currentStatus now =
     (if currentStatus = RESOLVED \<or> currentStatus = CLOSED then COMPLETED
      else
        let daysRemaining = real_of_int (deadline - now) / (1000 * 60 * 60 * 24)
        in if daysRemaining < 0 then OVERDUE
           else if daysRemaining \<le> 1 then WARNING
           else ON_TIME)"

text \<open>
  The call site in the seeding loop: the deadline is the submission time plus the SLA
  hours of the drawn complaint type, and the third argument is
  \<open>resolvedOn || closedOn\<close>.
\<close>

definition seedSlaStatus ::
  "date \<Rightarrow> complaint_type_cfg \<Rightarrow> date option \<Rightarrow> date option \<Rightarrow> complaint_status \<Rightarrow> date
     \<Rightarrow> sla_status" where
  "seedSlaStatus submittedOn complaintTypeData resolvedOn closedOn status now =
     (let deadline = addHours submittedOn (slaHours complaintTypeData)
      in calculateSLAStatus submittedOn deadline
           (case resolvedOn of Some r \<Rightarrow> Some r | None \<Rightarrow> closedOn) status now)"

section \<open>Client store: the wards and sub-zones cache (dataSlice)\<close>

text \<open>
  The part of \<open>DataState\<close> that the reducer \<open>setWardsWithSubZones\<close> touches is
  \<open>locations\<close>; the other slices of the state are carried along in \<open>others\<close>. A
  ward object of the payload has an id and may carry a \<open>subZones\<close> array:
  \<open>None\<close> stands for a \<open>subZones\<close> property that is missing, falsy or not an array
  (the test \<open>ward.subZones && Array.isArray(ward.subZones)\<close> fails), \<open>Some zs\<close> for an
  array, possibly empty. Every \<open>Date.now()\<close> of the reducer is a separate reading of
  the clock: \<open>clock k\<close> is the k-th reading.
\<close>

record subZoneObj =
  szo_id :: string
  szo_name :: string
  szo_wardId :: string

record wardObj =
  wo_id :: string
  wo_name :: string
  wo_subZones :: "subZoneObj list option"

record 'a cachedData =
  cd_data :: 'a
  cd_timestamp :: int

record locations =
  loc_wards :: "wardObj list cachedData option"
  loc_subZones :: "string \<rightharpoonup> subZoneObj list cachedData"

record 'o dataState =
  ds_locations :: locations
  ds_others :: 'o

definition hasSubZones :: "wardObj list \<Rightarrow> bool" where
  "hasSubZones payload =
     list_ex (\<lambda>ward. case wo_subZones ward of None \<Rightarrow> False | Some zs \<Rightarrow> length zs > 0) payload"

text \<open>The \<open>forEach\<close> loop that fills the sub-zone map, reading the clock once per stored entry.\<close>

fun storeSubZones ::
  "(nat \<Rightarrow> int) \<Rightarrow> nat \<Rightarrow> wardObj list \<Rightarrow> (string \<rightharpoonup> subZoneObj list cachedData)
     \<Rightarrow> (string \<rightharpoonup> subZoneObj list cachedData)" where
  "storeSubZones clock k [] m = m"
| "storeSubZones clock k (ward # rest) m =
     (case wo_subZones ward of
        Some zs \<Rightarrow>
          storeSubZones clock (Suc k) rest
            (m(wo_id ward \<mapsto> \<lparr>cd_data = zs, cd_timestamp = clock k\<rparr>))
      | None \<Rightarrow> storeSubZones clock k rest m)"

definition setWardsWithSubZones ::
  "(nat \<Rightarrow> int) \<Rightarrow> 'o dataState \<Rightarrow> wardObj list \<Rightarrow> 'o dataState" where
  "setWardsWithSubZones clock state payload =
     (let has = hasSubZones payload;
          loc1 = (ds_locations state)
                   \<lparr>loc_wards := Some \<lparr>cd_data = payload, cd_timestamp = clock 0\<rparr>\<rparr>;
          loc2 = (if has
                  then loc1\<lparr>loc_subZones := storeSubZones clock 1 payload Map.empty\<rparr>
                  else loc1)
      in state\<lparr>ds_locations := loc2\<rparr>)"

text \<open>
  The sub-zone arrays of the payload, as pairs of ward id and array, in payload order.
\<close>

definition subZonePairs :: "wardObj list \<Rightarrow> (string \<times> subZoneObj list) list" where
  "subZonePairs payload =
     List.map_filter (\<lambda>ward. map_option (\<lambda>zs. (wo_id ward, zs)) (wo_subZones ward)) payload"

section \<open>Guest routes: the upload file filter\<close>

text \<open>
  \<open>fileFilter\<close> takes the extension of the client's file name with Node's
  \<open>path.extname\<close>, lower-cases it, drops the leading dot and tests it against the
  regular expression \<open>/jpeg|jpg|png|gif|pdf|doc|docx|txt/\<close>. The expression has no
  anchors, so \<open>test\<close> succeeds when one of the alternatives occurs anywhere in the
  extension. Strings are byte strings; lower-casing is modelled on the ASCII letters.

  \<open>extname\<close> follows Node's POSIX implementation: trailing slashes are skipped, the
  last path component is taken, and the extension runs from its last dot to its end,
  unless there is no dot, the only dot is the first character, or the component is
  \<open>..\<close>.
\<close>

definition toLowerChar :: "char \<Rightarrow> char" where
  "toLowerChar c =
     (let n = (of_char c :: nat) in if 65 \<le> n \<and> n \<le> 90 then char_of (n + 32) else c)"

definition toLowerCase :: "string \<Rightarrow> string" where
  "toLowerCase s = map toLowerChar s"

definition stripTrailingSlashes :: "string \<Rightarrow> string" where
  "stripTrailingSlashes p = rev (dropWhile (\<lambda>c. c = CHR ''/'') (rev p))"

definition lastComponent :: "string \<Rightarrow> string" where
  "lastComponent p = rev (takeWhile (\<lambda>c. c \<noteq> CHR ''/'') (rev (stripTrailingSlashes p)))"

definition extname :: "string \<Rightarrow> string" where
  "extname p =
     (let comp = lastComponent p;
          afterDot = rev (takeWhile (\<lambda>c. c \<noteq> CHR ''.'') (rev comp));
          upToDot = take (length comp - length afterDot) comp
      in if CHR ''.'' \<notin> set comp then []
         else if upToDot = ''.'' then []
         else if comp = ''..'' then []
         else CHR ''.'' # afterDot)"

fun startsWith :: "string \<Rightarrow> string \<Rightarrow> bool" where
  "startsWith s [] = True"
| "startsWith [] (p # ps) = False"
| "startsWith (c # cs) (p # ps) = (c = p \<and> startsWith cs ps)"

fun occursIn :: "string \<Rightarrow> string \<Rightarrow> bool" where
  "occursIn pat [] = (pat = [])"
| "occursIn pat (c # cs) = (startsWith (c # cs) pat \<or> occursIn pat cs)"

definition allowedTypes :: "string list" where
  "allowedTypes = [''jpeg'', ''jpg'', ''png'', ''gif'', ''pdf'', ''doc'', ''docx'', ''txt'']"

definition allowedTypes_test :: "string \<Rightarrow> bool" where
  "allowedTypes_test s = list_ex (\<lambda>alt. occursIn alt s) allowedTypes"

datatype filter_result = Accepted | Rejected string

definition fileFilter :: "string \<Rightarrow> filter_result" where
  "fileFilter originalname =
     (let fileExtension = drop 1 (toLowerCase (extname originalname))
      in if allowedTypes_test fileExtension then Accepted
         else Rejected
           ''Invalid file type. Only images (JPEG, PNG, GIF) and documents (PDF, DOC, DOCX, TXT) are allowed'')"

text \<open>The limits handed to multer: 10 MB per file, at most 5 files.\<close>

definition limit_fileSize :: nat where
  "limit_fileSize = 10 * 1024 * 1024"

definition limit_files :: nat where
  "limit_files = 5"

section \<open>HTTP replies and JSON bodies\<close>

text \<open>
  A handler ends by sending a JSON body with a status code (\<open>res.status(n).json(...)\<close>),
  by sending a file (\<open>res.sendFile\<close>), or by throwing: \<open>asyncHandler\<close> hands a thrown
  error to the error middleware, which is not part of the modelled code. A JSON object
  is the list of its keys and values in the order the source writes them; a property
  whose value is \<open>undefined\<close> is not serialised and so is left out.
\<close>

datatype json =
    JNull
  | JBool bool
  | JNum int
  | JStr string
  | JArr "json list"
  | JObj "(string \<times> json) list"

datatype reply =
    Json nat json
  | SendFile string
  | Thrown string

fun keysOf :: "json \<Rightarrow> string list" where
  "keysOf (JObj kvs) = map fst kvs"
| "keysOf _ = []"

fun jsonMember :: "json \<Rightarrow> string \<Rightarrow> json option" where
  "jsonMember (JObj kvs) k = map_of kvs k"
| "jsonMember _ k = None"

fun isBool :: "json option \<Rightarrow> bool" where
  "isBool (Some (JBool b)) = True"
| "isBool _ = False"

fun isStr :: "json option \<Rightarrow> bool" where
  "isStr (Some (JStr s)) = True"
| "isStr _ = False"

text \<open>
  The envelope in the words of the specification: exactly the fields \<open>success\<close> (a
  boolean), \<open>message\<close> (a string) and \<open>data\<close>.
\<close>

definition uniformEnvelope :: "json \<Rightarrow> bool" where
  "uniformEnvelope j \<longleftrightarrow>
     list_all (\<lambda>k. k \<in> set (keysOf j)) [''success'', ''message'', ''data'']
     \<and> list_all (\<lambda>k. k \<in> set [''success'', ''message'', ''data'']) (keysOf j)
     \<and> distinct (keysOf j)
     \<and> isBool (jsonMember j ''success'') \<and> isStr (jsonMember j ''message'')"

text \<open>The weaker shapes that the handlers share: the two leading fields, and \<open>data\<close>.\<close>

definition hasSuccessMessage :: "json \<Rightarrow> bool" where
  "hasSuccessMessage j \<longleftrightarrow> isBool (jsonMember j ''success'') \<and> isStr (jsonMember j ''message'')"

definition hasData :: "json \<Rightarrow> bool" where
  "hasData j \<longleftrightarrow> ''data'' \<in> set (keysOf j)"

fun statusOf :: "reply \<Rightarrow> nat option" where
  "statusOf (Json n b) = Some n"
| "statusOf _ = None"

text \<open>
  A reply whose JSON body, if it has one, carries \<open>success\<close>, \<open>message\<close> and \<open>data\<close>
  (and possibly more), and a reply whose JSON body is just \<open>success\<close> and \<open>message\<close>.
\<close>

fun envelopeReply :: "reply \<Rightarrow> bool" where
  "envelopeReply (Json n b) = (hasSuccessMessage b \<and> hasData b)"
| "envelopeReply _ = True"

fun shortReply :: "reply \<Rightarrow> bool" where
  "shortReply (Json n b) = (hasSuccessMessage b \<and> keysOf b = [''success'', ''message''])"
| "shortReply _ = True"

text \<open>A reply whose JSON body, if it has one, is exactly the uniform envelope.\<close>

fun exactReply :: "reply \<Rightarrow> bool" where
  "exactReply (Json n b) = uniformEnvelope b"
| "exactReply _ = True"

section \<open>Validation middleware\<close>

text \<open>
  The body of a request is the list of its fields; the fields are strings (form fields
  and JSON strings), and a field that is absent is \<open>undefined\<close>. Each field chain
  built with \<open>body(...)\<close> is a middleware that may rewrite the body (sanitizers such
  as \<open>trim\<close>), records the errors it finds in the request and always calls \<open>next\<close>;
  a chain is modelled by its effect, from a body to the new body and the errors it
  adds. \<open>validationResult\<close> reads the recorded errors in order.
\<close>

type_synonym body = "(string \<times> string) list"

record validationError =
  ve_path :: string
  ve_msg :: string
  ve_value :: "string option"

record request =
  rq_body :: body
  rq_errors :: "validationError list"

type_synonym validator = "body \<Rightarrow> body \<times> validationError list"

definition runValidator :: "validator \<Rightarrow> request \<Rightarrow> request" where
  "runValidator v req =
     (let (b, es) = v (rq_body req)
      in req\<lparr>rq_body := b, rq_errors := rq_errors req @ es\<rparr>)"

fun runValidators :: "validator list \<Rightarrow> request \<Rightarrow> request" where
  "runValidators [] req = req"
| "runValidators (v # vs) req = runValidators vs (runValidator v req)"

definition validationResult :: "request \<Rightarrow> validationError list" where
  "validationResult req = rq_errors req"

definition formatError :: "validationError \<Rightarrow> json" where
  "formatError error =
     JObj ([(''field'', JStr (ve_path error)), (''message'', JStr (ve_msg error))]
           @ (case ve_value error of None \<Rightarrow> [] | Some v \<Rightarrow> [(''value'', JStr v)]))"

text \<open>
  \<open>handleValidationErrors\<close>: \<open>Some reply\<close> when it answers itself, \<open>None\<close> when it
  calls \<open>next()\<close>.
\<close>

definition handleValidationErrors :: "request \<Rightarrow> reply option" where
  "handleValidationErrors req =
     (let errors = validationResult req
      in if errors \<noteq> []
         then Some (Json 400 (JObj
                [(''success'', JBool False),
                 (''message'', JStr ''Validation failed''),
                 (''data'', JObj [(''errors'', JArr (map formatError errors))])]))
         else None)"

text \<open>
  A route with a validator array: Express runs the field chains in order, then
  \<open>handleValidationErrors\<close> (the last element of every exported array), then the
  controller, which works on the state \<open>db\<close>.
\<close>

definition route ::
  "validator list \<Rightarrow> (request \<Rightarrow> 'db \<Rightarrow> reply \<times> 'db) \<Rightarrow> request \<Rightarrow> 'db \<Rightarrow> reply \<times> 'db" where
  "route chain controller req db =
     (let req' = runValidators chain req
      in case handleValidationErrors req' of
           Some r \<Rightarrow> (r, db)
         | None \<Rightarrow> controller req' db)"

text \<open>The errors that a list of chains adds, starting from a given body.\<close>

fun collectErrors :: "validator list \<Rightarrow> body \<Rightarrow> validationError list" where
  "collectErrors [] b = []"
| "collectErrors (v # vs) b = snd (v b) @ collectErrors vs (fst (v b))"

subsection \<open>The rules for a complaint update\<close>

definition isWhitespace :: "char \<Rightarrow> bool" where
  "isWhitespace c \<longleftrightarrow> (of_char c :: nat) \<in> {9, 10, 11, 12, 13, 32}"

definition trim :: "string \<Rightarrow> string" where
  "trim s = rev (dropWhile isWhitespace (rev (dropWhile isWhitespace s)))"

definition setField :: "string \<Rightarrow> string \<Rightarrow> body \<Rightarrow> body" where
  "setField k v b = map (\<lambda>(k', v'). if k' = k then (k', v) else (k', v')) b"

text \<open>\<open>body(f).optional().isIn(values).withMessage(msg)\<close>\<close>

definition optionalIsIn :: "string \<Rightarrow> string list \<Rightarrow> string \<Rightarrow> validator" where
  "optionalIsIn f values msg b =
     (case map_of b f of
        None \<Rightarrow> (b, [])
      | Some v \<Rightarrow>
          if v \<in> set values then (b, [])
          else (b, [\<lparr>ve_path = f, ve_msg = msg, ve_value = Some v\<rparr>]))"

text \<open>\<open>body(f).optional().isString().withMessage(msg)\<close>: every field of the model is a string.\<close>

definition optionalIsString :: "string \<Rightarrow> string \<Rightarrow> validator" where
  "optionalIsString f msg b = (b, [])"

text \<open>\<open>body(f).optional().trim().isLength({ max: n }).withMessage(msg)\<close>\<close>

definition optionalTrimMaxLength :: "string \<Rightarrow> nat \<Rightarrow> string \<Rightarrow> validator" where
  "optionalTrimMaxLength f n msg b =
     (case map_of b f of
        None \<Rightarrow> (b, [])
      | Some v \<Rightarrow>
          let v' = trim v; b' = setField f v' b
          in if length v' \<le> n then (b', [])
             else (b', [\<lparr>ve_path = f, ve_msg = msg, ve_value = Some v'\<rparr>]))"

definition statusValues :: "string list" where
  "statusValues =
     [''REGISTERED'', ''ASSIGNED'', ''IN_PROGRESS'', ''RESOLVED'', ''CLOSED'', ''REOPENED'']"

definition validateComplaintUpdate :: "validator list" where
  "validateComplaintUpdate =
     [optionalIsIn ''status'' statusValues ''Invalid status'',
      optionalIsIn ''priority'' [''LOW'', ''MEDIUM'', ''HIGH'', ''CRITICAL''] ''Invalid priority'',
      optionalIsString ''assignedToId'' ''Invalid user ID'',
      optionalTrimMaxLength ''comment'' 1000 ''Comment cannot exceed 1000 characters'']"

section \<open>Seed script: the status logs of a simulated complaint\<close>







section \<open>Persistence layer\<close>

text \<open>
  The tables that the user controller reads and writes, each a list of rows in
  storage order, with the columns the modelled handlers use. A stored password is
  either a bcrypt hash or the JSON text of a verification token that \<open>createUser\<close>
  parks in the same column: \<open>JSON.parse\<close> succeeds on the second and fails on the
  first. \<open>Hashed p\<close> stands for a bcrypt hash of the plain text \<open>p\<close>, so that
  \<open>bcrypt.compare(q, Hashed p)\<close> holds exactly when \<open>q = p\<close>; the digest of a reset
  token is represented by the token.
\<close>

datatype role = CITIZEN | WARD_OFFICER | MAINTENANCE_TEAM | ADMINISTRATOR

fun roleOfString :: "string \<Rightarrow> role option" where
  "roleOfString s =
     (if s = ''CITIZEN'' then Some CITIZEN
      else if s = ''WARD_OFFICER'' then Some WARD_OFFICER
      else if s = ''MAINTENANCE_TEAM'' then Some MAINTENANCE_TEAM
      else if s = ''ADMINISTRATOR'' then Some ADMINISTRATOR
      else None)"

fun roleName :: "role \<Rightarrow> string" where
  "roleName CITIZEN = ''CITIZEN''"
| "roleName WARD_OFFICER = ''WARD_OFFICER''"
| "roleName MAINTENANCE_TEAM = ''MAINTENANCE_TEAM''"
| "roleName ADMINISTRATOR = ''ADMINISTRATOR''"

datatype passwordField = Hashed string | VerificationToken string date

record user =
  u_id :: string
  u_fullName :: string
  u_email :: string
  u_phoneNumber :: "string option"
  u_role :: role
  u_wardId :: "string option"
  u_department :: "string option"
  u_password :: "passwordField option"
  u_isActive :: bool
  u_joinedOn :: date

record wardRow =
  w_id :: string
  w_name :: string
  w_description :: "string option"
  w_isActive :: bool

record subZoneRow =
  sz_id :: string
  sz_name :: string
  sz_wardId :: string
  sz_isActive :: bool

record complaintRow =
  c_id :: string
  c_wardId :: string
  c_subZoneId :: "string option"

record otpSession =
  os_id :: string
  os_userId :: "string option"
  os_email :: string
  os_otpCode :: string
  os_purpose :: string
  os_expiresAt :: date
  os_isVerified :: bool
  os_verifiedAt :: "date option"

record database =
  users :: "user list"
  wards :: "wardRow list"
  subZones :: "subZoneRow list"
  complaints :: "complaintRow list"
  otpSessions :: "otpSession list"

text \<open>
  The queries of the ORM on one table. \<open>findUnique\<close> and \<open>findFirst\<close> return the first
  row that satisfies the condition, \<open>update\<close> and \<open>delete\<close> with a unique \<open>where\<close>
  change the first such row, \<open>updateMany\<close> changes all of them.
\<close>

definition findFirst :: "('a \<Rightarrow> bool) \<Rightarrow> 'a list \<Rightarrow> 'a option" where
  "findFirst P rows = List.find P rows"

definition countWhere :: "('a \<Rightarrow> bool) \<Rightarrow> 'a list \<Rightarrow> nat" where
  "countWhere P rows = length (filter P rows)"

fun updateFirst :: "('a \<Rightarrow> bool) \<Rightarrow> ('a \<Rightarrow> 'a) \<Rightarrow> 'a list \<Rightarrow> 'a list" where
  "updateFirst P f [] = []"
| "updateFirst P f (x # xs) = (if P x then f x # xs else x # updateFirst P f xs)"

fun deleteFirst :: "('a \<Rightarrow> bool) \<Rightarrow> 'a list \<Rightarrow> 'a list" where
  "deleteFirst P [] = []"
| "deleteFirst P (x # xs) = (if P x then xs else x # deleteFirst P xs)"

definition updateMany :: "('a \<Rightarrow> bool) \<Rightarrow> ('a \<Rightarrow> 'a) \<Rightarrow> 'a list \<Rightarrow> 'a list" where
  "updateMany P f rows = map (\<lambda>x. if P x then f x else x) rows"

text \<open>A request value is truthy when it is present and not the empty string.\<close>

fun truthy :: "string option \<Rightarrow> bool" where
  "truthy None = False"
| "truthy (Some s) = (s \<noteq> [])"

fun jsonOpt :: "string option \<Rightarrow> json" where
  "jsonOpt None = JNull"
| "jsonOpt (Some s) = JStr s"

text \<open>
  The columns of a user that the handlers select for a reply, as far as the model has
  them (never the password; \<open>language\<close>, \<open>avatar\<close>, \<open>lastLogin\<close> and the joined
  \<open>ward\<close> are not modelled).
\<close>

definition userJson :: "user \<Rightarrow> json" where
  "userJson u =
     JObj [(''id'', JStr (u_id u)),
           (''fullName'', JStr (u_fullName u)),
           (''email'', JStr (u_email u)),
           (''phoneNumber'', jsonOpt (u_phoneNumber u)),
           (''role'', JStr (roleName (u_role u))),
           (''wardId'', jsonOpt (u_wardId u)),
           (''department'', jsonOpt (u_department u)),
           (''isActive'', JBool (u_isActive u)),
           (''joinedOn'', JNum (u_joinedOn u))]"

section \<open>User controller: users\<close>

record createUserBody =
  cu_fullName :: "string option"
  cu_email :: "string option"
  cu_phoneNumber :: "string option"
  cu_role :: "string option"
  cu_wardId :: "string option"
  cu_department :: "string option"
  cu_password :: "string option"

text \<open>The structured errors of the basic validation, in the order the checks are made.\<close>

definition createUserValidationErrors :: "createUserBody \<Rightarrow> (string \<times> json) list" where
  "createUserValidationErrors b =
     (if (case cu_fullName b of
            None \<Rightarrow> True
          | Some fullName \<Rightarrow> fullName = [] \<or> length (trim fullName) < 3)
      then [(''fullName'', JStr ''Full name must be at least 3 characters.'')] else [])
     @ (if \<not> truthy (cu_email b) then [(''email'', JStr ''Email is required.'')] else [])
     @ (if \<not> truthy (cu_role b) then [(''role'', JStr ''Role is required.'')] else [])"

text \<open>
  \<open>createUser\<close>. Beside the request body and the database, the handler depends on the
  clock (\<open>now\<close>), on the id the database gives the new row (\<open>newId\<close>), on the random
  reset token and on whether the mail service delivered the verification mail. The
  database refuses (the ORM throws) a role outside the enumeration, a ward id that
  matches no ward, and an id that is already in use. Past the validation the email
  and the role are present, and the password is read only where it is truthy, so
  \<open>the\<close> is applied to present values only.
\<close>

definition createUser ::
  "createUserBody \<Rightarrow> date \<Rightarrow> string \<Rightarrow> string \<Rightarrow> bool \<Rightarrow> database \<Rightarrow> reply \<times> database" where
  "createUser b now newId resetToken emailSent db =
     (let validationErrors = createUserValidationErrors b
      in if validationErrors \<noteq> []
         then (Json 400 (JObj [(''success'', JBool False),
                                (''message'', JStr ''Validation failed''),
                                (''errors'', JObj validationErrors),
                                (''data'', JNull)]), db)
         else
           let email = the (cu_email b);
               roleStr = the (cu_role b);
               existingUser = findFirst (\<lambda>u. u_email u = email) (users db)
           in if existingUser \<noteq> None
              then (Json 400 (JObj [(''success'', JBool False),
                                     (''message'', JStr ''User already exists with this email''),
                                     (''errors'', JObj
                                        [(''email'', JStr ''User already exists with this email'')]),
                                     (''data'', JNull)]), db)
              else
                let sendVerificationEmail =
                      (\<not> (roleStr = ''CITIZEN'' \<and> truthy (cu_password b))
                       \<and> roleStr \<in> set [''WARD_OFFICER'', ''MAINTENANCE_TEAM'']);
                    hashedPassword =
                      (if roleStr = ''CITIZEN'' \<and> truthy (cu_password b)
                       then Some (Hashed (the (cu_password b)))
                       else if roleStr \<in> set [''WARD_OFFICER'', ''MAINTENANCE_TEAM''] then None
                       else if roleStr = ''ADMINISTRATOR'' \<and> truthy (cu_password b)
                       then Some (Hashed (the (cu_password b)))
                       else None)
                in case roleOfString roleStr of
                     None \<Rightarrow> (Thrown ''PrismaClientValidationError'', db)
                   | Some r \<Rightarrow>
                       if truthy (cu_wardId b)
                          \<and> findFirst (\<lambda>w. Some (w_id w) = cu_wardId b) (wards db) = None
                       then (Thrown ''Foreign key constraint failed'', db)
                       else if findFirst (\<lambda>u. u_id u = newId) (users db) \<noteq> None
                       then (Thrown ''Unique constraint failed'', db)
                       else
                         let user = \<lparr>u_id = newId,
                                     u_fullName = the (cu_fullName b),
                                     u_email = email,
                                     u_phoneNumber = cu_phoneNumber b,
                                     u_role = r,
                                     u_wardId = (if truthy (cu_wardId b) then cu_wardId b else None),
                                     u_department =
                                       (if truthy (cu_department b) then cu_department b else None),
                                     u_password = hashedPassword,
                                     u_isActive = True,
                                     u_joinedOn = now\<rparr>;
                             db1 = db\<lparr>users := users db @ [user]\<rparr>
                         in if sendVerificationEmail
                            then
                              let resetPasswordExpire = now + 24 * 60 * 60 * 1000;
                                  db2 = db1\<lparr>users :=
                                          updateFirst (\<lambda>u. u_id u = u_id user)
                                            (\<lambda>u. u\<lparr>u_password :=
                                               Some (VerificationToken resetToken
                                                       resetPasswordExpire)\<rparr>)
                                            (users db1)\<rparr>
                              in if \<not> emailSent
                                 then (Json 500 (JObj
                                         [(''success'', JBool False),
                                          (''message'', JStr
                                             ''Failed to send verification email. User creation cancelled.''),
                                          (''data'', JNull)]),
                                       db2\<lparr>users :=
                                             deleteFirst (\<lambda>u. u_id u = u_id user) (users db2)\<rparr>)
                                 else (Json 201 (JObj
                                         [(''success'', JBool True),
                                          (''message'', JStr
                                             ''User created successfully. Verification email sent.''),
                                          (''data'', JObj [(''user'', userJson user)])]), db2)
                            else (Json 201 (JObj
                                    [(''success'', JBool True),
                                     (''message'', JStr ''User created successfully''),
                                     (''data'', JObj [(''user'', userJson user)])]), db1))"

definition activeAdministrators :: "database \<Rightarrow> nat" where
  "activeAdministrators db =
     countWhere (\<lambda>u. u_role u = ADMINISTRATOR \<and> u_isActive u) (users db)"

definition deleteUser :: "string \<Rightarrow> database \<Rightarrow> reply \<times> database" where
  "deleteUser userId db =
     (case findFirst (\<lambda>u. u_id u = userId) (users db) of
        None \<Rightarrow>
          (Json 404 (JObj [(''success'', JBool False),
                           (''message'', JStr ''User not found''),
                           (''data'', JNull)]), db)
      | Some user \<Rightarrow>
          if u_role user = ADMINISTRATOR \<and> activeAdministrators db \<le> 1
          then (Json 400 (JObj [(''success'', JBool False),
                                 (''message'', JStr ''Cannot delete the last administrator''),
                                 (''data'', JNull)]), db)
          else (Json 200 (JObj [(''success'', JBool True),
                                 (''message'', JStr ''User deactivated successfully''),
                                 (''data'', JNull)]),
                db\<lparr>users := updateFirst (\<lambda>u. u_id u = userId)
                                (\<lambda>u. u\<lparr>u_isActive := False\<rparr>) (users db)\<rparr>))"

section \<open>User controller: wards and sub-zones\<close>

text \<open>
  \<open>deleteWard\<close> and \<open>deleteSubZone\<close>. Their error replies and their success replies
  carry \<open>success\<close> and \<open>message\<close> only. The schema declares the relation of a
  sub-zone to its ward with \<open>onDelete: Cascade\<close>: deleting a ward row deletes the
  sub-zone rows of that ward. A complaint's reference to a sub-zone is optional; it
  is cleared when the sub-zone row goes away with its ward (the ORM's default action
  for an optional relation).
\<close>

definition wardDeleteCascade :: "string \<Rightarrow> database \<Rightarrow> database" where
  "wardDeleteCascade wardId db =
     (let gone = map sz_id (filter (\<lambda>z. sz_wardId z = wardId) (subZones db))
      in db\<lparr>wards := deleteFirst (\<lambda>w. w_id w = wardId) (wards db),
            subZones := filter (\<lambda>z. sz_wardId z \<noteq> wardId) (subZones db),
            complaints :=
              map (\<lambda>c. case c_subZoneId c of
                          None \<Rightarrow> c
                        | Some z \<Rightarrow> if z \<in> set gone then c\<lparr>c_subZoneId := None\<rparr> else c)
                  (complaints db)\<rparr>)"

definition deleteWard :: "string \<Rightarrow> database \<Rightarrow> reply \<times> database" where
  "deleteWard wardId db =
     (case findFirst (\<lambda>w. w_id w = wardId) (wards db) of
        None \<Rightarrow>
          (Json 404 (JObj [(''success'', JBool False), (''message'', JStr ''Ward not found'')]), db)
      | Some ward \<Rightarrow>
          let usersInWard = countWhere (\<lambda>u. u_wardId u = Some wardId) (users db)
          in if usersInWard > 0
             then (Json 400 (JObj
                     [(''success'', JBool False),
                      (''message'', JStr
                         ''Cannot delete ward. There are users assigned to this ward.'')]), db)
             else
               let complaintsInWard = countWhere (\<lambda>c. c_wardId c = wardId) (complaints db)
               in if complaintsInWard > 0
                  then (Json 400 (JObj
                          [(''success'', JBool False),
                           (''message'', JStr
                              ''Cannot delete ward. There are complaints assigned to this ward.'')]),
                        db)
                  else (Json 200 (JObj [(''success'', JBool True),
                                         (''message'', JStr ''Ward deleted successfully'')]),
                        wardDeleteCascade wardId db))"

definition deleteSubZone :: "string \<Rightarrow> string \<Rightarrow> database \<Rightarrow> reply \<times> database" where
  "deleteSubZone wardId subZoneId db =
     (case findFirst (\<lambda>w. w_id w = wardId) (wards db) of
        None \<Rightarrow>
          (Json 404 (JObj [(''success'', JBool False), (''message'', JStr ''Ward not found'')]), db)
      | Some ward \<Rightarrow>
          (case findFirst (\<lambda>z. sz_id z = subZoneId) (subZones db) of
             None \<Rightarrow>
               (Json 404 (JObj [(''success'', JBool False),
                                (''message'', JStr ''Sub-zone not found'')]), db)
           | Some subZone \<Rightarrow>
               if sz_wardId subZone \<noteq> wardId
               then (Json 400 (JObj [(''success'', JBool False),
                                      (''message'', JStr ''Sub-zone does not belong to this ward'')]),
                     db)
               else
                 let complaintsInSubZone =
                       countWhere (\<lambda>c. c_subZoneId c = Some subZoneId) (complaints db)
                 in if complaintsInSubZone > 0
                    then (Json 400 (JObj
                            [(''success'', JBool False),
                             (''message'', JStr
                                ''Cannot delete sub-zone. There are complaints assigned to this sub-zone.'')]),
                          db)
                    else (Json 200 (JObj [(''success'', JBool True),
                                           (''message'', JStr ''Sub-zone deleted successfully'')]),
                          db\<lparr>subZones :=
                                deleteFirst (\<lambda>z. sz_id z = subZoneId) (subZones db)\<rparr>)))"


section \<open>User controller: passwords and one-time codes\<close>

definition hasUpperCase :: "string \<Rightarrow> bool" where
  "hasUpperCase p = list_ex (\<lambda>c. 65 \<le> (of_char c :: nat) \<and> (of_char c :: nat) \<le> 90) p"

definition hasLowerCase :: "string \<Rightarrow> bool" where
  "hasLowerCase p = list_ex (\<lambda>c. 97 \<le> (of_char c :: nat) \<and> (of_char c :: nat) \<le> 122) p"

definition hasNumbers :: "string \<Rightarrow> bool" where
  "hasNumbers p = list_ex (\<lambda>c. 48 \<le> (of_char c :: nat) \<and> (of_char c :: nat) \<le> 57) p"

definition specialChars :: string where
  "specialChars = [CHR ''!'', CHR ''@'', CHR ''#'', CHR ''$'', CHR ''%'', CHR ''^'', CHR ''&'',
     CHR ''*'', CHR ''('', CHR '')'', CHR '','', CHR ''.'', CHR ''?'', CHR 0x22, CHR '':'',
     CHR ''{'', CHR ''}'', CHR ''|'', CHR ''<'', CHR ''>'']"

definition hasSpecialChar :: "string \<Rightarrow> bool" where
  "hasSpecialChar p = list_ex (\<lambda>c. c \<in> set specialChars) p"

definition validatePasswordStrength :: "string \<Rightarrow> bool \<times> string list" where
  "validatePasswordStrength password =
     (let minLength = 8;
          errors =
            (if length password < minLength
             then [''Password must be at least 8 characters long''] else [])
            @ (if \<not> hasUpperCase password
               then [''Password must contain at least one uppercase letter''] else [])
            @ (if \<not> hasLowerCase password
               then [''Password must contain at least one lowercase letter''] else [])
            @ (if \<not> hasNumbers password
               then [''Password must contain at least one number''] else [])
            @ (if \<not> hasSpecialChar password
               then [''Password must contain at least one special character''] else [])
      in (errors = [], errors))"

record changePasswordBody =
  cp_oldPassword :: "string option"
  cp_newPassword :: "string option"
  cp_confirmPassword :: "string option"

text \<open>
  \<open>changePassword\<close>. All its replies have the fields \<open>status\<close>, \<open>code\<close> and
  \<open>message\<close>. \<open>bcrypt.compare\<close> throws when the stored password is \<open>null\<close>.
\<close>

definition changePassword ::
  "changePasswordBody \<Rightarrow> string \<Rightarrow> database \<Rightarrow> reply \<times> database" where
  "changePassword b userId db =
     (if \<not> truthy (cp_oldPassword b) \<or> \<not> truthy (cp_newPassword b)
         \<or> \<not> truthy (cp_confirmPassword b)
      then (Json 400 (JObj [(''status'', JStr ''error''), (''code'', JNum 400),
                             (''message'', JStr ''All fields are required'')]), db)
      else if cp_newPassword b \<noteq> cp_confirmPassword b
      then (Json 400 (JObj [(''status'', JStr ''error''), (''code'', JNum 400),
                             (''message'', JStr
                                ''New password and confirm password do not match'')]), db)
      else
        let newPassword = the (cp_newPassword b);
            oldPassword = the (cp_oldPassword b);
            passwordValidation = validatePasswordStrength newPassword
        in if \<not> fst passwordValidation
           then (Json 400 (JObj [(''status'', JStr ''error''), (''code'', JNum 400),
                                  (''message'', JStr
                                     ''Password does not meet security requirements''),
                                  (''errors'', JArr (map JStr (snd passwordValidation)))]), db)
           else
             (case findFirst (\<lambda>u. u_id u = userId) (users db) of
                None \<Rightarrow>
                  (Json 404 (JObj [(''status'', JStr ''error''), (''code'', JNum 404),
                                   (''message'', JStr ''User not found'')]), db)
              | Some user \<Rightarrow>
                  (case u_password user of
                     Some (VerificationToken t e) \<Rightarrow>
                       (Json 400 (JObj
                          [(''status'', JStr ''error''), (''code'', JNum 400),
                           (''message'', JStr
                              ''Account not yet verified. Please complete account verification first.'')]),
                        db)
                   | None \<Rightarrow> (Thrown ''Illegal arguments: string, object'', db)
                   | Some (Hashed h) \<Rightarrow>
                       if h \<noteq> oldPassword
                       then (Json 401 (JObj [(''status'', JStr ''error''), (''code'', JNum 401),
                                              (''message'', JStr ''Incorrect current password'')]),
                             db)
                       else (Json 200 (JObj [(''status'', JStr ''success''), (''code'', JNum 200),
                                              (''message'', JStr ''Password updated successfully'')]),
                             db\<lparr>users := updateFirst (\<lambda>u. u_id u = userId)
                                             (\<lambda>u. u\<lparr>u_password := Some (Hashed newPassword)\<rparr>)
                                             (users db)\<rparr>))))"

text \<open>
  Whether the user already has a usable password: a parked verification token does
  not count, nor does an absent password.
\<close>

fun hasValidPassword :: "passwordField option \<Rightarrow> bool" where
  "hasValidPassword None = False"
| "hasValidPassword (Some (VerificationToken t e)) = False"
| "hasValidPassword (Some (Hashed h)) = True"

text \<open>
  \<open>sendPasswordSetupOTP\<close>. The six-digit code is random and is a parameter, as are the
  id of the new session row and the outcome of the mail service. The handler reads
  the clock several times within one request; the readings are taken as one instant
  \<open>now\<close>.
\<close>

definition sendPasswordSetupOTP ::
  "string \<Rightarrow> date \<Rightarrow> string \<Rightarrow> string \<Rightarrow> bool \<Rightarrow> database \<Rightarrow> reply \<times> database" where
  "sendPasswordSetupOTP userId now otpCode newId emailSent db =
     (case findFirst (\<lambda>u. u_id u = userId) (users db) of
        None \<Rightarrow>
          (Json 404 (JObj [(''success'', JBool False), (''message'', JStr ''User not found''),
                           (''data'', JNull)]), db)
      | Some user \<Rightarrow>
          if \<not> u_isActive user
          then (Json 400 (JObj [(''success'', JBool False),
                                 (''message'', JStr
                                    ''Account is deactivated. Please contact support.''),
                                 (''data'', JNull)]), db)
          else if hasValidPassword (u_password user)
          then (Json 400 (JObj [(''success'', JBool False),
                                 (''message'', JStr
                                    ''Password already set. Use change password instead.''),
                                 (''data'', JNull)]), db)
          else
            let db1 = db\<lparr>otpSessions :=
                          updateMany (\<lambda>s. os_email s = u_email user
                                          \<and> os_purpose s = ''PASSWORD_SETUP''
                                          \<and> \<not> os_isVerified s)
                            (\<lambda>s. s\<lparr>os_expiresAt := now\<rparr>) (otpSessions db)\<rparr>;
                expiresAt = now + 10 * 60 * 1000
            in if findFirst (\<lambda>s. os_id s = newId) (otpSessions db1) \<noteq> None
               then (Thrown ''Unique constraint failed'', db1)
               else
                 let db2 = db1\<lparr>otpSessions := otpSessions db1 @
                             [\<lparr>os_id = newId, os_userId = Some (u_id user),
                               os_email = u_email user, os_otpCode = otpCode,
                               os_purpose = ''PASSWORD_SETUP'', os_expiresAt = expiresAt,
                               os_isVerified = False, os_verifiedAt = None\<rparr>]\<rparr>
                 in if emailSent
                    then (Json 200 (JObj
                            [(''success'', JBool True),
                             (''message'', JStr ''OTP sent to your email for password setup''),
                             (''data'', JObj [(''email'', JStr (u_email user)),
                                              (''expiresAt'', JNum expiresAt)])]), db2)
                    else (Json 500 (JObj
                            [(''success'', JBool False),
                             (''message'', JStr ''Failed to send OTP. Please try again.''),
                             (''data'', JNull)]),
                          db2\<lparr>otpSessions :=
                                updateMany (\<lambda>s. os_email s = u_email user
                                                \<and> os_purpose s = ''PASSWORD_SETUP''
                                                \<and> os_otpCode s = otpCode)
                                  (\<lambda>s. s\<lparr>os_expiresAt := now\<rparr>) (otpSessions db2)\<rparr>))"

text \<open>The condition of the \<open>findFirst\<close> in \<open>verifyPasswordSetupOTP\<close>.\<close>

definition validSession :: "string \<Rightarrow> string \<Rightarrow> date \<Rightarrow> otpSession \<Rightarrow> bool" where
  "validSession email otpCode now s \<longleftrightarrow>
     os_email s = email \<and> os_otpCode s = otpCode \<and> os_purpose s = ''PASSWORD_SETUP''
     \<and> os_isVerified s = False \<and> os_expiresAt s > now"

definition verifyPasswordSetupOTP ::
  "string option \<Rightarrow> string \<Rightarrow> date \<Rightarrow> database \<Rightarrow> reply \<times> database" where
  "verifyPasswordSetupOTP otpCode userId now db =
     (if \<not> truthy otpCode
      then (Json 400 (JObj [(''success'', JBool False), (''message'', JStr ''OTP code is required''),
                             (''data'', JNull)]), db)
      else
        case findFirst (\<lambda>u. u_id u = userId) (users db) of
          None \<Rightarrow>
            (Json 404 (JObj [(''success'', JBool False), (''message'', JStr ''User not found''),
                             (''data'', JNull)]), db)
        | Some user \<Rightarrow>
            if \<not> u_isActive user
            then (Json 400 (JObj [(''success'', JBool False),
                                   (''message'', JStr
                                      ''Account is deactivated. Please contact support.''),
                                   (''data'', JNull)]), db)
            else
              (case findFirst (validSession (u_email user) (the otpCode) now) (otpSessions db) of
                 None \<Rightarrow>
                   (Json 400 (JObj [(''success'', JBool False),
                                    (''message'', JStr ''Invalid or expired OTP''),
                                    (''data'', JNull)]), db)
               | Some otpSession \<Rightarrow>
                   (Json 200 (JObj [(''success'', JBool True),
                                    (''message'', JStr ''OTP verified successfully''),
                                    (''data'', JObj [(''email'', JStr (u_email user)),
                                                     (''verified'', JBool True)])]),
                    db\<lparr>otpSessions :=
                          updateFirst (\<lambda>s. os_id s = os_id otpSession)
                            (\<lambda>s. s\<lparr>os_isVerified := True, os_verifiedAt := Some now\<rparr>)
                            (otpSessions db)\<rparr>)))"

text \<open>
  \<open>setPasswordAfterOTP\<close>: needs a session of the user's email that was verified
  within the last 30 minutes, stores the new password and expires every password
  setup session of that email. A failure of the confirmation mail is ignored.
\<close>

definition setPasswordAfterOTP ::
  "string option \<Rightarrow> string option \<Rightarrow> string \<Rightarrow> date \<Rightarrow> database \<Rightarrow> reply \<times> database" where
  "setPasswordAfterOTP password confirmPassword userId now db =
     (if \<not> truthy password \<or> \<not> truthy confirmPassword
      then (Json 400 (JObj [(''success'', JBool False),
                             (''message'', JStr ''Password and confirm password are required''),
                             (''data'', JNull)]), db)
      else if password \<noteq> confirmPassword
      then (Json 400 (JObj [(''success'', JBool False),
                             (''message'', JStr ''Passwords do not match''),
                             (''data'', JNull)]), db)
      else
        let passwordValidation = validatePasswordStrength (the password)
        in if \<not> fst passwordValidation
           then (Json 400 (JObj [(''success'', JBool False),
                                  (''message'', JStr
                                     ''Password does not meet security requirements''),
                                  (''data'', JObj
                                     [(''errors'', JArr (map JStr (snd passwordValidation)))])]),
                 db)
           else
             (case findFirst (\<lambda>u. u_id u = userId) (users db) of
                None \<Rightarrow>
                  (Json 404 (JObj [(''success'', JBool False),
                                   (''message'', JStr ''User not found''),
                                   (''data'', JNull)]), db)
              | Some user \<Rightarrow>
                  if \<not> u_isActive user
                  then (Json 400 (JObj [(''success'', JBool False),
                                         (''message'', JStr
                                            ''Account is deactivated. Please contact support.''),
                                         (''data'', JNull)]), db)
                  else if hasValidPassword (u_password user)
                  then (Json 400 (JObj [(''success'', JBool False),
                                         (''message'', JStr
                                            ''Password already set. Use change password instead.''),
                                         (''data'', JNull)]), db)
                  else
                    (case findFirst
                            (\<lambda>s. os_email s = u_email user
                                 \<and> os_purpose s = ''PASSWORD_SETUP''
                                 \<and> os_isVerified s
                                 \<and> (case os_verifiedAt s of
                                       None \<Rightarrow> False
                                     | Some t \<Rightarrow> t > now - 30 * 60 * 1000))
                            (otpSessions db) of
                       None \<Rightarrow>
                         (Json 400 (JObj
                            [(''success'', JBool False),
                             (''message'', JStr
                                ''OTP verification required or expired. Please request a new OTP.''),
                             (''data'', JNull)]), db)
                     | Some verifiedOTPSession \<Rightarrow>
                         (Json 200 (JObj [(''success'', JBool True),
                                          (''message'', JStr ''Password set successfully''),
                                          (''data'', JObj [(''hasPassword'', JBool True)])]),
                          db\<lparr>users := updateFirst (\<lambda>u. u_id u = userId)
                                          (\<lambda>u. u\<lparr>u_password := Some (Hashed (the password))\<rparr>)
                                          (users db),
                              otpSessions :=
                                updateMany (\<lambda>s. os_email s = u_email user
                                                \<and> os_purpose s = ''PASSWORD_SETUP'')
                                  (\<lambda>s. s\<lparr>os_expiresAt := now\<rparr>) (otpSessions db)\<rparr>))))"

text \<open>
  The states that the three handlers of the password setup can reach from a given
  one, in any number of calls with any arguments.
\<close>

inductive later :: "database \<Rightarrow> database \<Rightarrow> bool" where
  later_refl: "later db db"
| later_verify:
    "later db db1 \<Longrightarrow> verifyPasswordSetupOTP otpCode userId now db1 = (r, db2) \<Longrightarrow> later db db2"
| later_send:
    "later db db1 \<Longrightarrow> sendPasswordSetupOTP userId now otpCode newId emailSent db1 = (r, db2)
       \<Longrightarrow> later db db2"
| later_set:
    "later db db1 \<Longrightarrow> setPasswordAfterOTP password confirmPassword userId now db1 = (r, db2)
       \<Longrightarrow> later db db2"

text \<open>
  A small database for the examples: one active citizen without a password, one
  active administrator, one ward with a sub-zone and a complaint.
\<close>

definition exampleCitizen :: user where
  "exampleCitizen =
     \<lparr>u_id = ''u1'', u_fullName = ''Citizen User 1'', u_email = ''citizen1@example.com'',
      u_phoneNumber = None, u_role = CITIZEN, u_wardId = None, u_department = None,
      u_password = None, u_isActive = True, u_joinedOn = 0\<rparr>"

definition exampleAdmin :: user where
  "exampleAdmin =
     \<lparr>u_id = ''u2'', u_fullName = ''System Administrator'', u_email = ''admin@kochi.gov.in'',
      u_phoneNumber = None, u_role = ADMINISTRATOR, u_wardId = None, u_department = None,
      u_password = Some (Hashed ''admin@123''), u_isActive = True, u_joinedOn = 0\<rparr>"

definition exampleDb :: database where
  "exampleDb =
     \<lparr>users = [exampleCitizen, exampleAdmin],
      wards = [\<lparr>w_id = ''w1'', w_name = ''Ward 1 - Fort Kochi'', w_description = None,
                w_isActive = True\<rparr>,
               \<lparr>w_id = ''w2'', w_name = ''Ward 2 - Mattancherry'', w_description = None,
                w_isActive = True\<rparr>],
      subZones = [\<lparr>sz_id = ''z1'', sz_name = ''Veli'', sz_wardId = ''w1'', sz_isActive = True\<rparr>,
                  \<lparr>sz_id = ''z2'', sz_name = ''Jew Town'', sz_wardId = ''w2'',
                   sz_isActive = True\<rparr>],
      complaints = [\<lparr>c_id = ''c1'', c_wardId = ''w2'', c_subZoneId = Some ''z2''\<rparr>],
      otpSessions = []\<rparr>"

text \<open>
  A session id that is spent: a row with this id exists and every row with this id
  is verified.
\<close>

definition sessionDone :: "string \<Rightarrow> otpSession list \<Rightarrow> bool" where
  "sessionDone i xs \<longleftrightarrow>
     (\<exists>s \<in> set xs. os_id s = i) \<and> (\<forall>s \<in> set xs. os_id s = i \<longrightarrow> os_isVerified s)"

section \<open>Guest routes: serving an uploaded file\<close>

text \<open>
  \<open>GET /files/:filename\<close>. The file system is the list of the paths that exist;
  \<open>path.join\<close> is taken on a plain file name, without the normalisation of dot
  segments.
\<close>

definition joinPath :: "string \<Rightarrow> string \<Rightarrow> string" where
  "joinPath dir name = dir @ ''/'' @ name"

definition serveGuestFile :: "string \<Rightarrow> string list \<Rightarrow> string \<Rightarrow> reply" where
  "serveGuestFile uploadDir existing filename =
     (let guestUploadDir = joinPath uploadDir ''complaints'';
          filePath = joinPath guestUploadDir filename
      in if filePath \<notin> set existing
         then Json 404 (JObj [(''success'', JBool False), (''message'', JStr ''File not found'')])
         else SendFile filePath)"

section \<open>Properties of the SLA status\<close>

text \<open>
  C1 (counterexample). The claim makes the SLA status a function of the submission
  time, the deadline and the resolution time alone, the same inputs always giving the
  same result. The function reads the clock: for a complaint submitted at time 0 with
  an Electricity deadline (12 hours), still REGISTERED and never resolved, the result
  is WARNING when the clock shows 0 and OVERDUE when it shows one millisecond after
  the deadline.
\<close>

theorem calculateSLAStatus_clock_counterexample:
  "calculateSLAStatus 0 (addHours 0 12) None REGISTERED 0 = WARNING \<and>
   calculateSLAStatus 0 (addHours 0 12) None REGISTERED 43200001 = OVERDUE"
  by (simp add: calculateSLAStatus_def addHours_def)

text \<open>
  C1 (amended). The SLA status is a deterministic function of the deadline, the
  current status and the current time: COMPLETED when the status is RESOLVED or
  CLOSED, otherwise OVERDUE when the deadline is before the current time, WARNING
  when at most one day (86400000 ms) remains, ON_TIME otherwise. The submission time
  and the resolution time do not influence the result, and in the seeding loop the
  deadline is the submission time plus the SLA hours of the complaint type.
\<close>

theorem calculateSLAStatus_spec:
  "calculateSLAStatus submittedOn deadline resolvedOn currentStatus now =
     (if currentStatus = RESOLVED \<or> currentStatus = CLOSED then COMPLETED
      else if deadline < now then OVERDUE
      else if deadline - now \<le> 86400000 then WARNING
      else ON_TIME)
   \<and> calculateSLAStatus submittedOn deadline resolvedOn currentStatus now =
       calculateSLAStatus submittedOn' deadline resolvedOn' currentStatus now
   \<and> seedSlaStatus submittedOn ct resolvedOn closedOn currentStatus now =
       calculateSLAStatus submittedOn (submittedOn + slaHours ct * 3600000)
         None currentStatus now"
  by (simp add: calculateSLAStatus_def seedSlaStatus_def addHours_def Let_def)


section \<open>Properties of the wards and sub-zones cache\<close>

lemma hasSubZones_iff:
  "hasSubZones payload \<longleftrightarrow> (\<exists>ward \<in> set payload. \<exists>zs. wo_subZones ward = Some zs \<and> zs \<noteq> [])"
  by (auto simp: hasSubZones_def list_ex_iff split: option.splits)

lemma subZonePairs_Cons:
  "subZonePairs (ward # rest) =
     (case wo_subZones ward of None \<Rightarrow> subZonePairs rest
      | Some zs \<Rightarrow> (wo_id ward, zs) # subZonePairs rest)"
  by (simp add: subZonePairs_def List.map_filter_simps split: option.splits)

lemma storeSubZones_data:
  "map_option cd_data (storeSubZones clock k payload m i) =
     (case map_of (rev (subZonePairs payload)) i of
        Some zs \<Rightarrow> Some zs
      | None \<Rightarrow> map_option cd_data (m i))"
proof (induction payload arbitrary: k m)
  case Nil
  then show ?case by (simp add: subZonePairs_def List.map_filter_simps)
next
  case (Cons ward rest)
  show ?case
  proof (cases "wo_subZones ward")
    case None
    then show ?thesis using Cons.IH [of k m] by (simp add: subZonePairs_Cons)
  next
    case (Some zs)
    define m' where "m' = m(wo_id ward \<mapsto> \<lparr>cd_data = zs, cd_timestamp = clock k\<rparr>)"
    have step: "storeSubZones clock k (ward # rest) m = storeSubZones clock (Suc k) rest m'"
      using Some by (simp add: m'_def)
    have pairs: "map_of (rev (subZonePairs (ward # rest))) i =
        (case map_of (rev (subZonePairs rest)) i of
           Some zs' \<Rightarrow> Some zs'
         | None \<Rightarrow> if i = wo_id ward then Some zs else None)"
      using Some by (simp add: subZonePairs_Cons map_add_def split: option.splits)
    have m': "map_option cd_data (m' i) = (if i = wo_id ward then Some zs else map_option cd_data (m i))"
      by (simp add: m'_def)
    show ?thesis
      unfolding step pairs Cons.IH [of "Suc k" m'] m'
      by (simp split: option.splits)
  qed
qed

lemma subZonePairs_set:
  "(i, zs) \<in> set (subZonePairs payload) \<longleftrightarrow> (\<exists>ward \<in> set payload. wo_id ward = i \<and> wo_subZones ward = Some zs)"
  by (induction payload) (auto simp: subZonePairs_Cons subZonePairs_def List.map_filter_simps split: option.splits)

lemma subZonePairs_distinct:
  "distinct (map wo_id payload) \<Longrightarrow> distinct (map fst (subZonePairs payload))"
proof (induction payload)
  case Nil
  then show ?case by (simp add: subZonePairs_def List.map_filter_simps)
next
  case (Cons ward rest)
  have "fst ` set (subZonePairs rest) \<subseteq> wo_id ` set rest"
    using subZonePairs_set [of _ _ rest] by force
  with Cons show ?case
    by (auto simp: subZonePairs_Cons split: option.splits)
qed

lemma map_of_rev_distinct:
  "distinct (map fst ps) \<Longrightarrow> map_of (rev ps) = map_of ps"
  by (rule ext) (metis distinct_rev map_of_inject_set rev_map set_rev)

text \<open>
  C10. \<open>setWardsWithSubZones\<close> always replaces \<open>locations.wards\<close> by the payload and
  leaves every other slice of the state alone. When no ward of the payload has a
  non-empty \<open>subZones\<close> array, \<open>locations.subZones\<close> is exactly what it was. When some
  ward has one, \<open>locations.subZones\<close> is rebuilt from the empty map: it holds an
  entry exactly for the ids of the payload wards that carry a \<open>subZones\<close> array, and
  the data of the entry is that array (for an id that occurs several times in the
  payload, the array of its last occurrence; with distinct ids, every payload ward
  with an array is mapped to exactly its array).
\<close>

theorem setWardsWithSubZones_frame:
  "(let state' = setWardsWithSubZones clock state payload in
     ds_others state' = ds_others state
    \<and> loc_wards (ds_locations state') = Some \<lparr>cd_data = payload, cd_timestamp = clock 0\<rparr>
    \<and> (hasSubZones payload \<longleftrightarrow>
         (\<exists>ward \<in> set payload. \<exists>zs. wo_subZones ward = Some zs \<and> zs \<noteq> []))
    \<and> (\<not> hasSubZones payload \<longrightarrow>
         loc_subZones (ds_locations state') = loc_subZones (ds_locations state))
    \<and> (hasSubZones payload \<longrightarrow>
         (\<forall>i. map_option cd_data (loc_subZones (ds_locations state') i) =
               map_of (rev (subZonePairs payload)) i))
    \<and> (hasSubZones payload \<and> distinct (map wo_id payload) \<longrightarrow>
         (\<forall>ward \<in> set payload. \<forall>zs. wo_subZones ward = Some zs \<longrightarrow>
            map_option cd_data (loc_subZones (ds_locations state') (wo_id ward)) = Some zs)))"
proof -
  define state' where "state' = setWardsWithSubZones clock state payload"
  have data: "hasSubZones payload \<Longrightarrow>
      map_option cd_data (loc_subZones (ds_locations state') i) = map_of (rev (subZonePairs payload)) i" for i
    unfolding state'_def
    using storeSubZones_data [of clock 1 payload Map.empty i]
    by (simp add: setWardsWithSubZones_def Let_def split: option.splits)
  have dist: "map_option cd_data (loc_subZones (ds_locations state') (wo_id ward)) = Some zs"
    if "hasSubZones payload" "distinct (map wo_id payload)" "ward \<in> set payload"
       "wo_subZones ward = Some zs" for ward zs
  proof -
    have "(wo_id ward, zs) \<in> set (subZonePairs payload)"
      using that subZonePairs_set by blast
    moreover have "distinct (map fst (subZonePairs payload))"
      using that subZonePairs_distinct by blast
    ultimately have "map_of (rev (subZonePairs payload)) (wo_id ward) = Some zs"
      by (simp add: map_of_rev_distinct)
    then show ?thesis using data that by simp
  qed
  have frame: "ds_others state' = ds_others state"
    and wards: "loc_wards (ds_locations state') = Some \<lparr>cd_data = payload, cd_timestamp = clock 0\<rparr>"
    and keep: "\<not> hasSubZones payload \<Longrightarrow>
         loc_subZones (ds_locations state') = loc_subZones (ds_locations state)"
    by (simp_all add: state'_def setWardsWithSubZones_def Let_def)
  show ?thesis
    unfolding Let_def state'_def [symmetric]
    using data dist hasSubZones_iff frame wards keep by blast
qed

theorem setWardsWithSubZones_frame_witness:
  "\<not> hasSubZones [\<lparr>wo_id = ''w1'', wo_name = ''Ward 1'', wo_subZones = None\<rparr>,
                   \<lparr>wo_id = ''w2'', wo_name = ''Ward 2'', wo_subZones = Some []\<rparr>]
   \<and> loc_subZones (ds_locations (setWardsWithSubZones (\<lambda>k. int k)
       \<lparr>ds_locations = \<lparr>loc_wards = None,
           loc_subZones = [''w9'' \<mapsto> \<lparr>cd_data = [], cd_timestamp = 5\<rparr>]\<rparr>, ds_others = ()\<rparr>
       [\<lparr>wo_id = ''w1'', wo_name = ''Ward 1'', wo_subZones = None\<rparr>,
        \<lparr>wo_id = ''w2'', wo_name = ''Ward 2'', wo_subZones = Some []\<rparr>]))
     = [''w9'' \<mapsto> \<lparr>cd_data = [], cd_timestamp = 5\<rparr>]
   \<and> hasSubZones [\<lparr>wo_id = ''w1'', wo_name = ''Ward 1'',
          wo_subZones = Some [\<lparr>szo_id = ''z1'', szo_name = ''Veli'', szo_wardId = ''w1''\<rparr>]\<rparr>,
        \<lparr>wo_id = ''w2'', wo_name = ''Ward 2'', wo_subZones = Some []\<rparr>]
   \<and> map_option cd_data (loc_subZones (ds_locations (setWardsWithSubZones (\<lambda>k. int k)
       \<lparr>ds_locations = \<lparr>loc_wards = None,
           loc_subZones = [''w9'' \<mapsto> \<lparr>cd_data = [], cd_timestamp = 5\<rparr>]\<rparr>, ds_others = ()\<rparr>
       [\<lparr>wo_id = ''w1'', wo_name = ''Ward 1'',
          wo_subZones = Some [\<lparr>szo_id = ''z1'', szo_name = ''Veli'', szo_wardId = ''w1''\<rparr>]\<rparr>,
        \<lparr>wo_id = ''w2'', wo_name = ''Ward 2'', wo_subZones = Some []\<rparr>])) ''w1'')
     = Some [\<lparr>szo_id = ''z1'', szo_name = ''Veli'', szo_wardId = ''w1''\<rparr>]"
  (is "\<not> hasSubZones ?p1 \<and> loc_subZones (ds_locations (setWardsWithSubZones ?clock ?s ?p1)) = ?m
       \<and> hasSubZones ?p2 \<and> ?lhs = ?rhs")
proof -
  have h1: "\<not> hasSubZones ?p1" by (simp add: hasSubZones_def)
  have h2: "hasSubZones ?p2" "distinct (map wo_id ?p2)" by (simp_all add: hasSubZones_def)
  have keep: "loc_subZones (ds_locations (setWardsWithSubZones ?clock ?s ?p1)) = loc_subZones (ds_locations ?s)"
    using setWardsWithSubZones_frame [of ?clock ?s ?p1] h1 unfolding Let_def by blast
  have mem: "\<lparr>wo_id = ''w1'', wo_name = ''Ward 1'',
          wo_subZones = Some [\<lparr>szo_id = ''z1'', szo_name = ''Veli'', szo_wardId = ''w1''\<rparr>]\<rparr> \<in> set ?p2"
    by simp
  have "\<forall>ward \<in> set ?p2. \<forall>zs. wo_subZones ward = Some zs \<longrightarrow>
      map_option cd_data (loc_subZones (ds_locations (setWardsWithSubZones ?clock ?s ?p2)) (wo_id ward)) = Some zs"
    using setWardsWithSubZones_frame [of ?clock ?s ?p2] h2 unfolding Let_def by blast
  from this mem have "?lhs = ?rhs" by fastforce
  with h1 h2 keep show ?thesis by simp
qed

section \<open>Properties of the upload file filter\<close>

text \<open>
  C7 (failing input). The filter is meant to accept only the extensions jpeg, jpg,
  png, gif, pdf, doc, docx and txt, as its error message says. The file name
  \<open>notes.docm\<close> has the extension \<open>docm\<close>, which is not in that list, and the
  filter accepts it, because the unanchored expression finds \<open>doc\<close> inside it.
\<close>

theorem fileFilter_accepts_docm:
  "fileFilter ''notes.docm'' = Accepted
   \<and> drop 1 (toLowerCase (extname ''notes.docm'')) = ''docm''
   \<and> ''docm'' \<notin> set allowedTypes"
  by (simp add: fileFilter_def extname_def lastComponent_def stripTrailingSlashes_def
        toLowerCase_def toLowerChar_def allowedTypes_test_def allowedTypes_def)

section \<open>Properties of the validation middleware\<close>

lemma runValidators_errors:
  "rq_errors (runValidators chain req) = rq_errors req @ collectErrors chain (rq_body req)"
  by (induction chain arbitrary: req) (simp_all add: runValidator_def split_beta)

lemma formatError_fields:
  "jsonMember (formatError e) ''field'' = Some (JStr (ve_path e))"
  "jsonMember (formatError e) ''message'' = Some (JStr (ve_msg e))"
  by (simp_all add: formatError_def)

text \<open>
  C4. For every request sent through a validator array and every controller: the
  errors that \<open>handleValidationErrors\<close> sees are the ones the field chains recorded.
  If there is at least one, the reply is status 400 with \<open>success = false\<close>, the
  message \<open>Validation failed\<close> and, under \<open>data.errors\<close>, one entry per error that
  carries the field name and the message; the state is returned as it was and the
  reply does not depend on the controller, which is not run. If there is none, the
  result is the controller's, applied to the (sanitized) request.
\<close>

theorem route_validation:
  "(let req' = runValidators chain req; errors = validationResult req' in
      errors = rq_errors req @ collectErrors chain (rq_body req)
    \<and> (errors \<noteq> [] \<longrightarrow>
         route chain controller req db =
           (Json 400 (JObj [(''success'', JBool False),
                            (''message'', JStr ''Validation failed''),
                            (''data'', JObj [(''errors'', JArr (map formatError errors))])]),
            db))
    \<and> (errors = [] \<longrightarrow> route chain controller req db = controller req' db)
    \<and> (\<forall>e \<in> set errors.
          jsonMember (formatError e) ''field'' = Some (JStr (ve_path e))
        \<and> jsonMember (formatError e) ''message'' = Some (JStr (ve_msg e))))"
  by (simp add: Let_def route_def handleValidationErrors_def validationResult_def
        runValidators_errors formatError_fields)

theorem route_validation_witness:
  "route validateComplaintUpdate (\<lambda>req db. (Json 200 (JObj [(''success'', JBool True)]), Suc db))
      \<lparr>rq_body = [(''status'', ''DONE'')], rq_errors = []\<rparr> (0::nat)
     = (Json 400 (JObj [(''success'', JBool False),
                        (''message'', JStr ''Validation failed''),
                        (''data'', JObj [(''errors'', JArr
                           [JObj [(''field'', JStr ''status''), (''message'', JStr ''Invalid status''),
                                  (''value'', JStr ''DONE'')]])])]), 0)
   \<and> route validateComplaintUpdate (\<lambda>req db. (Json 200 (JObj [(''success'', JBool True)]), Suc db))
      \<lparr>rq_body = [(''status'', ''CLOSED'')], rq_errors = []\<rparr> (0::nat)
     = (Json 200 (JObj [(''success'', JBool True)]), 1)"
  using route_validation [of validateComplaintUpdate "\<lparr>rq_body = [(''status'', ''DONE'')], rq_errors = []\<rparr>"
          "\<lambda>req db. (Json 200 (JObj [(''success'', JBool True)]), Suc db)" "0::nat"]
        route_validation [of validateComplaintUpdate "\<lparr>rq_body = [(''status'', ''CLOSED'')], rq_errors = []\<rparr>"
          "\<lambda>req db. (Json 200 (JObj [(''success'', JBool True)]), Suc db)" "0::nat"]
  by (simp add: Let_def validationResult_def runValidators_errors validateComplaintUpdate_def
        optionalIsIn_def optionalIsString_def optionalTrimMaxLength_def statusValues_def formatError_def)

section \<open>Properties of the status lifecycle\<close>






section \<open>Facts about the table queries\<close>

lemma map_updateFirst:
  "(\<And>x. g (f x) = g x) \<Longrightarrow> map g (updateFirst P f xs) = map g xs"
  by (induction xs) simp_all

lemma set_updateFirst:
  "y \<in> set (updateFirst P f xs) \<Longrightarrow> y \<in> set xs \<or> (\<exists>x \<in> set xs. P x \<and> y = f x)"
  by (induction xs) (auto split: if_splits)

lemma findFirst_Some:
  "findFirst P xs = Some x \<Longrightarrow> x \<in> set xs \<and> P x"
  by (auto simp: findFirst_def find_Some_iff)

lemma findFirst_None:
  "findFirst P xs = None \<longleftrightarrow> (\<forall>x \<in> set xs. \<not> P x)"
  by (auto simp: findFirst_def find_None_iff)

lemma countWhere_updateFirst:
  "findFirst P xs = Some x \<Longrightarrow>
     countWhere Q (updateFirst P f xs) + (if Q x then 1 else 0) =
     countWhere Q xs + (if Q (f x) then 1 else 0)"
proof (induction xs)
  case Nil
  then show ?case by (simp add: findFirst_def)
next
  case (Cons y ys)
  show ?case
  proof (cases "P y")
    case True
    with Cons.prems have "x = y" by (simp add: findFirst_def)
    with True show ?thesis by (simp add: countWhere_def)
  next
    case False
    with Cons.prems have "findFirst P ys = Some x" by (simp add: findFirst_def)
    from Cons.IH [OF this] False show ?thesis by (simp add: countWhere_def)
  qed
qed

lemma findFirst_updateFirst:
  "findFirst P xs = Some x \<Longrightarrow> P (f x) \<Longrightarrow> findFirst P (updateFirst P f xs) = Some (f x)"
  by (induction xs) (auto simp: findFirst_def split: if_splits)






lemma updateFirst_distinct:
  "distinct (map g xs) \<Longrightarrow>
     updateFirst (\<lambda>x. g x = k) f xs = map (\<lambda>x. if g x = k then f x else x) xs"
proof (induction xs)
  case Nil
  then show ?case by simp
next
  case (Cons x xs)
  show ?case
  proof (cases "g x = k")
    case True
    from Cons.prems have "g x \<notin> g ` set xs" by simp
    with True have "\<forall>y \<in> set xs. g y \<noteq> k" by blast
    then have "map (\<lambda>x. if g x = k then f x else x) xs = xs"
      by (simp add: map_idI)
    with True show ?thesis by simp
  next
    case False
    with Cons show ?thesis by simp
  qed
qed

section \<open>Properties of deleting a user\<close>

text \<open>
  C9. \<open>deleteUser\<close> never removes a row of the user table: the ids of the rows are
  the same before and after, in the same order, and a row that differs from the old
  ones is an old row of the target id with \<open>isActive\<close> set to false. On success the
  table is the old one with the target's first row deactivated; on every other reply
  nothing changes. When the target is an administrator and at most one active
  administrator exists, the reply is 400 and the database is unchanged. So a
  database with at least one active administrator still has one afterwards.
\<close>

theorem deleteUser_soft_delete:
  "(let (r, db') = deleteUser userId db in
      map u_id (users db') = map u_id (users db)
    \<and> (\<forall>u' \<in> set (users db').
          u' \<in> set (users db) \<or> (\<exists>u \<in> set (users db). u_id u = userId \<and> u' = u\<lparr>u_isActive := False\<rparr>))
    \<and> (statusOf r = Some 200 \<longrightarrow>
          users db' = updateFirst (\<lambda>u. u_id u = userId) (\<lambda>u. u\<lparr>u_isActive := False\<rparr>) (users db)
          \<and> (\<exists>u \<in> set (users db'). u_id u = userId \<and> \<not> u_isActive u))
    \<and> (statusOf r \<noteq> Some 200 \<longrightarrow> db' = db)
    \<and> (\<forall>user. findFirst (\<lambda>u. u_id u = userId) (users db) = Some user
           \<and> u_role user = ADMINISTRATOR \<and> activeAdministrators db \<le> 1 \<longrightarrow>
          r = Json 400 (JObj [(''success'', JBool False),
                              (''message'', JStr ''Cannot delete the last administrator''),
                              (''data'', JNull)])
          \<and> db' = db)
    \<and> (1 \<le> activeAdministrators db \<longrightarrow> 1 \<le> activeAdministrators db'))"
proof (cases "findFirst (\<lambda>u. u_id u = userId) (users db)")
  case None
  then show ?thesis by (simp add: deleteUser_def)
next
  case (Some user)
  let ?upd = "updateFirst (\<lambda>u. u_id u = userId) (\<lambda>u. u\<lparr>u_isActive := False\<rparr>) (users db)"
  show ?thesis
  proof (cases "u_role user = ADMINISTRATOR \<and> activeAdministrators db \<le> 1")
    case True
    with Some show ?thesis by (simp add: deleteUser_def)
  next
    case False
    have res: "deleteUser userId db =
        (Json 200 (JObj [(''success'', JBool True),
                         (''message'', JStr ''User deactivated successfully''),
                         (''data'', JNull)]), db\<lparr>users := ?upd\<rparr>)"
      using Some False by (simp add: deleteUser_def)
    have ids: "map u_id ?upd = map u_id (users db)"
      by (rule map_updateFirst) simp
    have rows: "\<forall>u' \<in> set ?upd.
          u' \<in> set (users db) \<or> (\<exists>u \<in> set (users db). u_id u = userId \<and> u' = u\<lparr>u_isActive := False\<rparr>)"
      using set_updateFirst [of _ "\<lambda>u. u_id u = userId" "\<lambda>u. u\<lparr>u_isActive := False\<rparr>" "users db"]
      by blast
    have target: "\<exists>u \<in> set ?upd. u_id u = userId \<and> \<not> u_isActive u"
    proof -
      have "u_id (user\<lparr>u_isActive := False\<rparr>) = userId"
        using findFirst_Some [OF Some] by simp
      then have "findFirst (\<lambda>u. u_id u = userId) ?upd = Some (user\<lparr>u_isActive := False\<rparr>)"
        using findFirst_updateFirst [OF Some, of "\<lambda>u. u\<lparr>u_isActive := False\<rparr>"] by simp
      then show ?thesis using findFirst_Some by fastforce
    qed
    have cnt: "1 \<le> activeAdministrators db \<Longrightarrow> 1 \<le> activeAdministrators (db\<lparr>users := ?upd\<rparr>)"
      using countWhere_updateFirst [OF Some, of "\<lambda>u. u_role u = ADMINISTRATOR \<and> u_isActive u"
              "\<lambda>u. u\<lparr>u_isActive := False\<rparr>"] False
      by (auto simp: activeAdministrators_def split: if_splits)
    show ?thesis
      unfolding res using ids rows target cnt Some False by (simp add: Let_def)
  qed
qed


theorem deleteUser_soft_delete_witness:
  "findFirst (\<lambda>u. u_id u = ''u2'') (users exampleDb) = Some exampleAdmin
   \<and> u_role exampleAdmin = ADMINISTRATOR
   \<and> activeAdministrators exampleDb = 1
   \<and> deleteUser ''u2'' exampleDb =
       (Json 400 (JObj [(''success'', JBool False),
                        (''message'', JStr ''Cannot delete the last administrator''),
                        (''data'', JNull)]), exampleDb)
   \<and> statusOf (fst (deleteUser ''u1'' exampleDb)) = Some 200
   \<and> 1 \<le> activeAdministrators (snd (deleteUser ''u1'' exampleDb))
   \<and> map u_id (users (snd (deleteUser ''u1'' exampleDb))) = [''u1'', ''u2'']"
proof -
  have h: "findFirst (\<lambda>u. u_id u = ''u2'') (users exampleDb) = Some exampleAdmin"
      "u_role exampleAdmin = ADMINISTRATOR" "activeAdministrators exampleDb = 1"
    by (simp_all add: exampleDb_def exampleAdmin_def exampleCitizen_def findFirst_def
          activeAdministrators_def countWhere_def)
  have ok: "statusOf (fst (deleteUser ''u1'' exampleDb)) = Some 200"
    by (simp add: deleteUser_def exampleDb_def exampleAdmin_def exampleCitizen_def findFirst_def)
  have ids: "map u_id (users exampleDb) = [''u1'', ''u2'']"
    by (simp add: exampleDb_def exampleAdmin_def exampleCitizen_def)
  have a: "deleteUser ''u2'' exampleDb =
       (Json 400 (JObj [(''success'', JBool False),
                        (''message'', JStr ''Cannot delete the last administrator''),
                        (''data'', JNull)]), exampleDb)"
    using deleteUser_soft_delete [of "''u2''" exampleDb] h
    by (cases "deleteUser ''u2'' exampleDb") (simp add: Let_def)
  have b: "1 \<le> activeAdministrators (snd (deleteUser ''u1'' exampleDb))
      \<and> map u_id (users (snd (deleteUser ''u1'' exampleDb))) = [''u1'', ''u2'']"
    using deleteUser_soft_delete [of "''u1''" exampleDb] h ids
    by (cases "deleteUser ''u1'' exampleDb") (simp add: Let_def)
  from h ok a b show ?thesis by simp
qed

section \<open>Properties of deleting wards and sub-zones\<close>






section \<open>Properties of creating a user\<close>


lemma createUser_invalid:
  "createUserValidationErrors b \<noteq> [] \<Longrightarrow>
     createUser b now newId resetToken emailSent db =
       (Json 400 (JObj [(''success'', JBool False),
                        (''message'', JStr ''Validation failed''),
                        (''errors'', JObj (createUserValidationErrors b)),
                        (''data'', JNull)]), db)"
  by (simp add: createUser_def)

lemma createUser_existing:
  "createUserValidationErrors b = [] \<Longrightarrow>
   findFirst (\<lambda>u. u_email u = the (cu_email b)) (users db) \<noteq> None \<Longrightarrow>
     createUser b now newId resetToken emailSent db =
       (Json 400 (JObj [(''success'', JBool False),
                        (''message'', JStr ''User already exists with this email''),
                        (''errors'', JObj [(''email'', JStr ''User already exists with this email'')]),
                        (''data'', JNull)]), db)"
  by (simp add: createUser_def Let_def)







section \<open>Properties of the reply bodies\<close>

lemma createUser_reply: "envelopeReply (fst (createUser b now newId resetToken emailSent db))"
proof (cases "createUserValidationErrors b = []")
  case False
  then show ?thesis
    by (simp add: createUser_invalid hasSuccessMessage_def hasData_def)
next
  case True
  show ?thesis
  proof (cases "findFirst (\<lambda>u. u_email u = the (cu_email b)) (users db) = None")
    case False
    then show ?thesis using True
      by (simp add: createUser_existing hasSuccessMessage_def hasData_def)
  next
    case None: True
    show ?thesis
      using True None
      by (simp add: createUser_def Let_def hasSuccessMessage_def hasData_def
            split: option.splits)
  qed
qed

lemma deleteUser_reply: "exactReply (fst (deleteUser userId db))"
  by (simp add: deleteUser_def uniformEnvelope_def split: option.splits)

lemma send_reply: "exactReply (fst (sendPasswordSetupOTP userId now otpCode newId emailSent db))"
  by (simp add: sendPasswordSetupOTP_def Let_def uniformEnvelope_def split: option.splits)

lemma verify_reply: "exactReply (fst (verifyPasswordSetupOTP otpCode userId now db))"
  by (simp add: verifyPasswordSetupOTP_def uniformEnvelope_def split: option.splits)

lemma set_reply: "exactReply (fst (setPasswordAfterOTP password confirmPassword userId now db))"
  by (simp add: setPasswordAfterOTP_def Let_def uniformEnvelope_def split: option.splits)

lemma validation_reply: "handleValidationErrors req = Some r \<Longrightarrow> exactReply r"
  by (auto simp: handleValidationErrors_def Let_def uniformEnvelope_def split: if_splits)

lemma deleteWard_reply: "shortReply (fst (deleteWard wardId db))"
  by (simp add: deleteWard_def Let_def hasSuccessMessage_def split: option.splits)

lemma deleteSubZone_reply: "shortReply (fst (deleteSubZone wardId subZoneId db))"
  by (simp add: deleteSubZone_def Let_def hasSuccessMessage_def split: option.splits)

lemma serve_reply: "shortReply (serveGuestFile uploadDir existing filename)"
  by (simp add: serveGuestFile_def Let_def hasSuccessMessage_def)

text \<open>
  C8 (counterexample). The claim says that every JSON reply is exactly the envelope
  of \<open>success\<close>, \<open>message\<close> and \<open>data\<close>, and names the change-password and the
  file-serving endpoints. A change-password request without fields is answered with
  the fields \<open>status\<close>, \<open>code\<close> and \<open>message\<close>; a request for a file that does not
  exist is answered with \<open>success\<close> and \<open>message\<close> and no \<open>data\<close>.
\<close>

theorem envelope_counterexample:
  "fst (changePassword \<lparr>cp_oldPassword = None, cp_newPassword = None, cp_confirmPassword = None\<rparr>
          ''u1'' exampleDb)
     = Json 400 (JObj [(''status'', JStr ''error''), (''code'', JNum 400),
                       (''message'', JStr ''All fields are required'')])
   \<and> \<not> uniformEnvelope (JObj [(''status'', JStr ''error''), (''code'', JNum 400),
                               (''message'', JStr ''All fields are required'')])
   \<and> serveGuestFile ''./uploads'' [] ''photo.png''
     = Json 404 (JObj [(''success'', JBool False), (''message'', JStr ''File not found'')])
   \<and> \<not> uniformEnvelope (JObj [(''success'', JBool False), (''message'', JStr ''File not found'')])"
  by (simp add: changePassword_def serveGuestFile_def uniformEnvelope_def)
text \<open>
  C8 (amended). The JSON replies of \<open>deleteUser\<close>, of the three password-setup
  handlers and of the validation middleware are exactly the envelope of \<open>success\<close>
  (a boolean), \<open>message\<close> (a string) and \<open>data\<close>. The replies of \<open>createUser\<close>
  carry these three fields, its 400 replies an \<open>errors\<close> object in addition. The
  replies of \<open>deleteWard\<close> and \<open>deleteSubZone\<close> and the 404 of the file-serving
  route carry \<open>success\<close> and \<open>message\<close> only; a file that exists is sent as it is.
\<close>

theorem reply_shapes:
  "envelopeReply (fst (createUser b now newId resetToken emailSent db))
   \<and> exactReply (fst (deleteUser userId db))
   \<and> exactReply (fst (sendPasswordSetupOTP userId now otpCode newId emailSent db))
   \<and> exactReply (fst (verifyPasswordSetupOTP submitted userId now db))
   \<and> exactReply (fst (setPasswordAfterOTP password confirmPassword userId now db))
   \<and> (\<forall>r. handleValidationErrors req = Some r \<longrightarrow> exactReply r)
   \<and> shortReply (fst (deleteWard wardId db))
   \<and> shortReply (fst (deleteSubZone wardId subZoneId db))
   \<and> shortReply (serveGuestFile uploadDir existing filename)
   \<and> (joinPath (joinPath uploadDir ''complaints'') filename \<in> set existing \<longrightarrow>
        serveGuestFile uploadDir existing filename
          = SendFile (joinPath (joinPath uploadDir ''complaints'') filename))"
  using createUser_reply deleteUser_reply send_reply verify_reply set_reply validation_reply
    deleteWard_reply deleteSubZone_reply serve_reply
  by (simp add: serveGuestFile_def Let_def)

theorem reply_shapes_witness:
  "handleValidationErrors
      \<lparr>rq_body = [], rq_errors = [\<lparr>ve_path = ''status'', ve_msg = ''Invalid status'',
                                      ve_value = Some ''DONE''\<rparr>]\<rparr>
     = Some (Json 400 (JObj
         [(''success'', JBool False), (''message'', JStr ''Validation failed''),
          (''data'', JObj [(''errors'', JArr
             [JObj [(''field'', JStr ''status''), (''message'', JStr ''Invalid status''),
                    (''value'', JStr ''DONE'')]])])]))
   \<and> exactReply (Json 400 (JObj
         [(''success'', JBool False), (''message'', JStr ''Validation failed''),
          (''data'', JObj [(''errors'', JArr
             [JObj [(''field'', JStr ''status''), (''message'', JStr ''Invalid status''),
                    (''value'', JStr ''DONE'')]])])]))
   \<and> joinPath (joinPath ''./uploads'' ''complaints'') ''a.png'' \<in> set [''./uploads/complaints/a.png'']
   \<and> serveGuestFile ''./uploads'' [''./uploads/complaints/a.png''] ''a.png''
        = SendFile ''./uploads/complaints/a.png''"
  (is "handleValidationErrors ?req = Some ?r \<and> exactReply ?r \<and> ?p \<in> set ?ex \<and> ?serve")
proof -
  have h: "handleValidationErrors ?req = Some ?r"
    by (simp add: handleValidationErrors_def validationResult_def formatError_def)
  have p: "?p \<in> set ?ex" and p': "?p = ''./uploads/complaints/a.png''"
    by (simp_all add: joinPath_def)
  note T = reply_shapes [where req = ?req and uploadDir = "''./uploads''" and existing = ?ex
             and filename = "''a.png''"]
  have a: "exactReply ?r" using T h by blast
  have b: ?serve using T p p' by simp
  from h a p b show ?thesis by blast
qed

section \<open>Properties of the one-time codes\<close>

lemma sessionDone_updateFirst:
  assumes "sessionDone i xs" and id: "\<And>s. os_id (f s) = os_id s"
    and ver: "\<And>s. os_isVerified s \<Longrightarrow> os_isVerified (f s)"
  shows "sessionDone i (updateFirst P f xs)"
proof -
  have eq: "map os_id (updateFirst P f xs) = map os_id xs"
    using id by (rule map_updateFirst)
  have "i \<in> set (map os_id xs)"
    using assms(1) by (auto simp: sessionDone_def)
  then have "i \<in> set (map os_id (updateFirst P f xs))"
    by (simp only: eq)
  then have ex: "\<exists>s \<in> set (updateFirst P f xs). os_id s = i"
    by auto
  have all: "os_isVerified y" if y: "y \<in> set (updateFirst P f xs)" and yi: "os_id y = i" for y
  proof -
    from set_updateFirst [OF y] consider "y \<in> set xs" | x where "x \<in> set xs" "y = f x"
      by blast
    then show ?thesis
    proof cases
      case 1
      with yi assms(1) show ?thesis by (simp add: sessionDone_def)
    next
      case 2
      with yi id have "os_id x = i" by simp
      with 2 assms(1) have "os_isVerified x" by (simp add: sessionDone_def)
      with 2 ver show ?thesis by simp
    qed
  qed
  from ex all show ?thesis by (simp add: sessionDone_def)
qed

lemma sessionDone_updateMany:
  assumes "sessionDone i xs" and id: "\<And>s. os_id (f s) = os_id s"
    and ver: "\<And>s. os_isVerified s \<Longrightarrow> os_isVerified (f s)"
  shows "sessionDone i (updateMany P f xs)"
proof -
  let ?h = "\<lambda>x. if P x then f x else x"
  have hid: "os_id (?h x) = os_id x" for x using id by simp
  have hver: "os_isVerified x \<Longrightarrow> os_isVerified (?h x)" for x using ver by simp
  from assms(1) obtain s where s: "s \<in> set xs" "os_id s = i"
    by (auto simp: sessionDone_def)
  then have "?h s \<in> set (updateMany P f xs)" "os_id (?h s) = i"
    using hid by (simp_all add: updateMany_def)
  then have ex: "\<exists>s \<in> set (updateMany P f xs). os_id s = i" by blast
  have all: "os_isVerified y" if y: "y \<in> set (updateMany P f xs)" and yi: "os_id y = i" for y
  proof -
    from y obtain x where x: "x \<in> set xs" "y = ?h x"
      by (auto simp: updateMany_def)
    with yi hid [of x] have "os_id x = i" by simp
    with x assms(1) have "os_isVerified x" by (simp add: sessionDone_def)
    with x hver [of x] show ?thesis by simp
  qed
  from ex all show ?thesis by (simp add: sessionDone_def)
qed

lemma sessionDone_append:
  "sessionDone i xs \<Longrightarrow> os_id n \<noteq> i \<Longrightarrow> sessionDone i (xs @ [n])"
  by (auto simp: sessionDone_def)

lemma distinct_updateMany:
  "(\<And>s. os_id (f s) = os_id s) \<Longrightarrow> map os_id (updateMany P f xs) = map os_id xs"
  by (simp add: updateMany_def)


lemma verify_sessionDone:
  "sessionDone i (otpSessions db) \<Longrightarrow>
     sessionDone i (otpSessions (snd (verifyPasswordSetupOTP c u n db)))"
  by (simp add: verifyPasswordSetupOTP_def sessionDone_updateFirst split: option.splits)

lemma verify_distinct:
  "distinct (map os_id (otpSessions db)) \<Longrightarrow>
     distinct (map os_id (otpSessions (snd (verifyPasswordSetupOTP c u n db))))"
  by (simp add: verifyPasswordSetupOTP_def map_updateFirst split: option.splits)

lemma set_sessionDone:
  "sessionDone i (otpSessions db) \<Longrightarrow>
     sessionDone i (otpSessions (snd (setPasswordAfterOTP p q u n db)))"
  by (simp add: setPasswordAfterOTP_def Let_def sessionDone_updateMany split: option.splits)

lemma set_distinct:
  "distinct (map os_id (otpSessions db)) \<Longrightarrow>
     distinct (map os_id (otpSessions (snd (setPasswordAfterOTP p q u n db))))"
  by (simp add: setPasswordAfterOTP_def Let_def distinct_updateMany split: option.splits)

lemma send_sessionDone:
  assumes "sessionDone i (otpSessions db)"
  shows "sessionDone i (otpSessions (snd (sendPasswordSetupOTP u n c newId sent db)))"
proof (cases "findFirst (\<lambda>x. u_id x = u) (users db)")
  case None
  with assms show ?thesis by (simp add: sendPasswordSetupOTP_def)
next
  case (Some user)
  let ?e = "\<lambda>s. s\<lparr>os_expiresAt := n\<rparr>"
  let ?xs1 = "updateMany (\<lambda>s. os_email s = u_email user \<and> os_purpose s = ''PASSWORD_SETUP''
                  \<and> \<not> os_isVerified s) ?e (otpSessions db)"
  have d1: "sessionDone i ?xs1"
    using assms by (rule sessionDone_updateMany) simp_all
  show ?thesis
  proof (cases "findFirst (\<lambda>s. os_id s = newId) ?xs1 = None")
    case False
    with Some d1 assms show ?thesis
      by (auto simp: sendPasswordSetupOTP_def Let_def)
  next
    case True
    then have "\<forall>s \<in> set ?xs1. os_id s \<noteq> newId" by (simp add: findFirst_None)
    with d1 have ne: "newId \<noteq> i" by (auto simp: sessionDone_def)
    let ?new = "\<lparr>os_id = newId, os_userId = Some (u_id user), os_email = u_email user,
                  os_otpCode = c, os_purpose = ''PASSWORD_SETUP'',
                  os_expiresAt = n + 10 * 60 * 1000, os_isVerified = False,
                  os_verifiedAt = None\<rparr>"
    have d2: "sessionDone i (?xs1 @ [?new])"
      using d1 ne by (simp add: sessionDone_append)
    have d3: "sessionDone i (updateMany (\<lambda>s. os_email s = u_email user
                  \<and> os_purpose s = ''PASSWORD_SETUP'' \<and> os_otpCode s = c) ?e (?xs1 @ [?new]))"
      using d2 by (rule sessionDone_updateMany) simp_all
    show ?thesis
      using Some True assms d2 d3
      by (simp add: sendPasswordSetupOTP_def Let_def)
  qed
qed

lemma send_distinct:
  assumes "distinct (map os_id (otpSessions db))"
  shows "distinct (map os_id (otpSessions (snd (sendPasswordSetupOTP u n c newId sent db))))"
proof (cases "findFirst (\<lambda>x. u_id x = u) (users db)")
  case None
  with assms show ?thesis by (simp add: sendPasswordSetupOTP_def)
next
  case (Some user)
  let ?e = "\<lambda>s. s\<lparr>os_expiresAt := n\<rparr>"
  let ?xs1 = "updateMany (\<lambda>s. os_email s = u_email user \<and> os_purpose s = ''PASSWORD_SETUP''
                  \<and> \<not> os_isVerified s) ?e (otpSessions db)"
  have m1: "map os_id ?xs1 = map os_id (otpSessions db)"
    by (rule distinct_updateMany) simp
  show ?thesis
  proof (cases "findFirst (\<lambda>s. os_id s = newId) ?xs1 = None")
    case False
    with Some assms m1 show ?thesis
      by (auto simp: sendPasswordSetupOTP_def Let_def)
  next
    case True
    then have "\<forall>s \<in> set ?xs1. os_id s \<noteq> newId" by (simp add: findFirst_None)
    then have "newId \<notin> set (map os_id ?xs1)" by auto
    then have fresh: "newId \<notin> set (map os_id (otpSessions db))" unfolding m1 .
    show ?thesis
      using Some True assms fresh
      by (simp add: sendPasswordSetupOTP_def Let_def distinct_updateMany m1)
  qed
qed

lemma later_invariants:
  "later db db2 \<Longrightarrow>
     (distinct (map os_id (otpSessions db)) \<longrightarrow> distinct (map os_id (otpSessions db2)))
   \<and> (sessionDone i (otpSessions db) \<longrightarrow> sessionDone i (otpSessions db2))"
proof (induction rule: later.induct)
  case (later_refl db)
  then show ?case by simp
next
  case (later_verify db db1 otpCode userId now r db2)
  then show ?case
    using verify_sessionDone [of i db1 otpCode userId now]
      verify_distinct [of db1 otpCode userId now] by auto
next
  case (later_send db db1 userId now otpCode newId emailSent r db2)
  then show ?case
    using send_sessionDone [of i db1 userId now otpCode newId emailSent]
      send_distinct [of db1 userId now otpCode newId emailSent] by auto
next
  case (later_set db db1 password confirmPassword userId now r db2)
  then show ?case
    using set_sessionDone [of i db1 password confirmPassword userId now]
      set_distinct [of db1 password confirmPassword userId now] by auto
qed

lemma verify_success:
  assumes "verifyPasswordSetupOTP otpCode userId now db = (Json 200 body, db')"
  shows "\<exists>code user s.
      otpCode = Some code
    \<and> findFirst (\<lambda>u. u_id u = userId) (users db) = Some user \<and> u_isActive user
    \<and> findFirst (validSession (u_email user) code now) (otpSessions db) = Some s
    \<and> db' = db\<lparr>otpSessions :=
                 updateFirst (\<lambda>x. os_id x = os_id s)
                   (\<lambda>x. x\<lparr>os_isVerified := True, os_verifiedAt := Some now\<rparr>)
                   (otpSessions db)\<rparr>"
proof (cases otpCode)
  case None
  with assms show ?thesis by (simp add: verifyPasswordSetupOTP_def)
next
  case (Some code)
  with assms show ?thesis
    by (auto simp: verifyPasswordSetupOTP_def split: option.splits if_splits)
qed

text \<open>
  C2 (counterexample). The claim says that after a successful verification any later
  attempt with the same code fails. The code of a session is random: when the user
  asks for a new code after the first verification and the new session happens to
  carry the same six digits, the later attempt with the same code succeeds, on the
  new session.
\<close>

theorem otp_code_reissued_counterexample:
  "fst (verifyPasswordSetupOTP (Some ''123456'') ''u1'' 1000
          (snd (sendPasswordSetupOTP ''u1'' 0 ''123456'' ''s1'' True exampleDb)))
     = Json 200 (JObj [(''success'', JBool True), (''message'', JStr ''OTP verified successfully''),
                       (''data'', JObj [(''email'', JStr ''citizen1@example.com''),
                                        (''verified'', JBool True)])])
   \<and> fst (verifyPasswordSetupOTP (Some ''123456'') ''u1'' 3000
          (snd (sendPasswordSetupOTP ''u1'' 2000 ''123456'' ''s2'' True
             (snd (verifyPasswordSetupOTP (Some ''123456'') ''u1'' 1000
                (snd (sendPasswordSetupOTP ''u1'' 0 ''123456'' ''s1'' True exampleDb)))))))
     = Json 200 (JObj [(''success'', JBool True), (''message'', JStr ''OTP verified successfully''),
                       (''data'', JObj [(''email'', JStr ''citizen1@example.com''),
                                        (''verified'', JBool True)])])"
  by (simp add: sendPasswordSetupOTP_def verifyPasswordSetupOTP_def exampleDb_def
        exampleCitizen_def exampleAdmin_def findFirst_def updateMany_def validSession_def Let_def)

text \<open>
  C2 (amended). Session ids being unique, a verification that succeeds has found a
  session of the user's email whose code is the submitted one, whose purpose is the
  password setup, whose verified flag is false and whose expiry is strictly after the
  current time; its only effect is to set the verified flag (and the verification
  time) of that session. In every state that the password-setup handlers reach from
  there, the session still exists and is verified, so no later verification can
  select it: each session is verified at most once. A later attempt with the same
  code by the same user fails with the invalid-or-expired error, unless another
  session of that email with the same code is unverified and unexpired at that time.
\<close>

theorem verifyPasswordSetupOTP_single_use:
  assumes dist: "distinct (map os_id (otpSessions db))"
    and ok: "verifyPasswordSetupOTP otpCode userId now db = (Json 200 body, db')"
  shows "\<exists>code user s.
      otpCode = Some code
    \<and> findFirst (\<lambda>u. u_id u = userId) (users db) = Some user \<and> u_isActive user
    \<and> s \<in> set (otpSessions db)
    \<and> os_email s = u_email user \<and> os_otpCode s = code \<and> os_purpose s = ''PASSWORD_SETUP''
    \<and> \<not> os_isVerified s \<and> now < os_expiresAt s
    \<and> db' = db\<lparr>otpSessions :=
                 map (\<lambda>x. if os_id x = os_id s
                          then x\<lparr>os_isVerified := True, os_verifiedAt := Some now\<rparr> else x)
                   (otpSessions db)\<rparr>
    \<and> (\<forall>db2. later db' db2 \<longrightarrow>
          distinct (map os_id (otpSessions db2))
        \<and> (\<exists>s2 \<in> set (otpSessions db2). os_id s2 = os_id s)
        \<and> (\<forall>s2 \<in> set (otpSessions db2). os_id s2 = os_id s \<longrightarrow> os_isVerified s2))
    \<and> (\<forall>now2. (\<forall>s2 \<in> set (otpSessions db).
                   s2 \<noteq> s \<longrightarrow> \<not> validSession (u_email user) code now2 s2) \<longrightarrow>
          verifyPasswordSetupOTP otpCode userId now2 db' =
            (Json 400 (JObj [(''success'', JBool False),
                             (''message'', JStr ''Invalid or expired OTP''),
                             (''data'', JNull)]), db'))"
proof -
  let ?mark = "\<lambda>x. x\<lparr>os_isVerified := True, os_verifiedAt := Some now\<rparr>"
  from verify_success [OF ok] obtain code user s where
    code: "otpCode = Some code"
    and user: "findFirst (\<lambda>u. u_id u = userId) (users db) = Some user" "u_isActive user"
    and s: "findFirst (validSession (u_email user) code now) (otpSessions db) = Some s"
    and db': "db' = db\<lparr>otpSessions :=
                 updateFirst (\<lambda>x. os_id x = os_id s) ?mark (otpSessions db)\<rparr>"
    by blast
  from findFirst_Some [OF s] have sin: "s \<in> set (otpSessions db)"
    and sv: "validSession (u_email user) code now s" by simp_all
  let ?xs' = "map (\<lambda>x. if os_id x = os_id s then ?mark x else x) (otpSessions db)"
  have upd: "updateFirst (\<lambda>x. os_id x = os_id s) ?mark (otpSessions db) = ?xs'"
    using dist by (rule updateFirst_distinct)
  have db'': "db' = db\<lparr>otpSessions := ?xs'\<rparr>"
    using db' upd by simp
  have dist': "distinct (map os_id (otpSessions db'))"
    using dist by (simp add: db'' comp_def if_distrib cong: if_cong)
  have done': "sessionDone (os_id s) (otpSessions db')"
    unfolding sessionDone_def db'' using sin by (auto intro!: bexI [of _ "?mark s"])
  have ever: "distinct (map os_id (otpSessions db2))
        \<and> (\<exists>s2 \<in> set (otpSessions db2). os_id s2 = os_id s)
        \<and> (\<forall>s2 \<in> set (otpSessions db2). os_id s2 = os_id s \<longrightarrow> os_isVerified s2)"
    if "later db' db2" for db2
    using later_invariants [OF that, of "os_id s"] dist' done'
    by (simp add: sessionDone_def)
  have code_ne: "code \<noteq> []"
    using ok code by (auto simp: verifyPasswordSetupOTP_def)
  have again: "verifyPasswordSetupOTP otpCode userId now2 db' =
            (Json 400 (JObj [(''success'', JBool False),
                             (''message'', JStr ''Invalid or expired OTP''),
                             (''data'', JNull)]), db')"
    if others: "\<forall>s2 \<in> set (otpSessions db). s2 \<noteq> s \<longrightarrow> \<not> validSession (u_email user) code now2 s2"
    for now2
  proof -
    have "\<not> validSession (u_email user) code now2 y" if y: "y \<in> set ?xs'" for y
    proof -
      from y obtain x where x: "x \<in> set (otpSessions db)"
        "y = (if os_id x = os_id s then ?mark x else x)" by auto
      show ?thesis
      proof (cases "os_id x = os_id s")
        case True
        with x show ?thesis by (simp add: validSession_def)
      next
        case False
        then have "x \<noteq> s" by auto
        with x others False show ?thesis by simp
      qed
    qed
    then have none: "findFirst (validSession (u_email user) code now2) (otpSessions db') = None"
      by (simp add: findFirst_None db'')
    have users': "users db' = users db" by (simp add: db'')
    show ?thesis
      using none user code code_ne users'
      by (simp add: verifyPasswordSetupOTP_def)
  qed
  from sv have fields: "os_email s = u_email user" "os_otpCode s = code"
      "os_purpose s = ''PASSWORD_SETUP''" "\<not> os_isVerified s" "now < os_expiresAt s"
    by (simp_all add: validSession_def)
  show ?thesis
    using code user sin fields db'' ever again by blast
qed

theorem verifyPasswordSetupOTP_single_use_witness:
  "distinct (map os_id (otpSessions (snd (sendPasswordSetupOTP ''u1'' 0 ''123456'' ''s1'' True exampleDb))))
   \<and> fst (verifyPasswordSetupOTP (Some ''123456'') ''u1'' 1000
          (snd (sendPasswordSetupOTP ''u1'' 0 ''123456'' ''s1'' True exampleDb)))
     = Json 200 (JObj [(''success'', JBool True), (''message'', JStr ''OTP verified successfully''),
                       (''data'', JObj [(''email'', JStr ''citizen1@example.com''),
                                        (''verified'', JBool True)])])
   \<and> fst (verifyPasswordSetupOTP (Some ''123456'') ''u1'' 1500
          (snd (verifyPasswordSetupOTP (Some ''123456'') ''u1'' 1000
             (snd (sendPasswordSetupOTP ''u1'' 0 ''123456'' ''s1'' True exampleDb)))))
     = Json 400 (JObj [(''success'', JBool False), (''message'', JStr ''Invalid or expired OTP''),
                       (''data'', JNull)])"
proof -
  define db1 where "db1 = snd (sendPasswordSetupOTP ''u1'' 0 ''123456'' ''s1'' True exampleDb)"
  define s1 where "s1 = \<lparr>os_id = ''s1'', os_userId = Some ''u1'',
       os_email = ''citizen1@example.com'',
       os_otpCode = ''123456'', os_purpose = ''PASSWORD_SETUP'', os_expiresAt = 600000,
       os_isVerified = False, os_verifiedAt = None\<rparr>"
  have sess: "otpSessions db1 = [s1]"
    by (simp add: db1_def s1_def sendPasswordSetupOTP_def exampleDb_def exampleCitizen_def
          exampleAdmin_def findFirst_def updateMany_def Let_def)
  have dist: "distinct (map os_id (otpSessions db1))"
    by (simp add: sess)
  define body where "body = JObj [(''success'', JBool True),
       (''message'', JStr ''OTP verified successfully''),
       (''data'', JObj [(''email'', JStr ''citizen1@example.com''), (''verified'', JBool True)])]"
  have first: "fst (verifyPasswordSetupOTP (Some ''123456'') ''u1'' 1000 db1) = Json 200 body"
    by (simp add: db1_def body_def sendPasswordSetupOTP_def verifyPasswordSetupOTP_def
          exampleDb_def exampleCitizen_def exampleAdmin_def findFirst_def updateMany_def
          validSession_def Let_def)
  define db2 where "db2 = snd (verifyPasswordSetupOTP (Some ''123456'') ''u1'' 1000 db1)"
  have ok: "verifyPasswordSetupOTP (Some ''123456'') ''u1'' 1000 db1 = (Json 200 body, db2)"
    using first by (simp add: db2_def prod_eq_iff)
  from verifyPasswordSetupOTP_single_use [OF dist ok] obtain code and user :: user and s where
    s: "s \<in> set (otpSessions db1)"
    and again: "\<forall>now2. (\<forall>s2 \<in> set (otpSessions db1).
                   s2 \<noteq> s \<longrightarrow> \<not> validSession (u_email user) code now2 s2) \<longrightarrow>
          verifyPasswordSetupOTP (Some ''123456'') ''u1'' now2 db2 =
            (Json 400 (JObj [(''success'', JBool False),
                             (''message'', JStr ''Invalid or expired OTP''),
                             (''data'', JNull)]), db2)"
    by blast
  from s sess have "\<forall>s2 \<in> set (otpSessions db1). s2 = s" by simp
  with again have "verifyPasswordSetupOTP (Some ''123456'') ''u1'' 1500 db2 =
            (Json 400 (JObj [(''success'', JBool False),
                             (''message'', JStr ''Invalid or expired OTP''),
                             (''data'', JNull)]), db2)"
    by blast
  then have second: "fst (verifyPasswordSetupOTP (Some ''123456'') ''u1'' 1500 db2) =
            Json 400 (JObj [(''success'', JBool False),
                             (''message'', JStr ''Invalid or expired OTP''),
                             (''data'', JNull)])"
    by simp
  from dist first second show ?thesis
    unfolding db1_def db2_def body_def by blast
qed


end
